theory Spec2Isabelle
  imports Complex_Main "HOL-Library.Char_ord" "HOL-Library.List_Lexorder"
begin

section \<open>JavaScript values\<close>

text \<open>
  The values that \<^verbatim>\<open>content.js\<close> handles are parsed JSON bodies and the objects it
  builds from them. A string is the list of its bytes in UTF-8; a lone surrogate, which a
  JavaScript string may hold, is the three bytes \<^verbatim>\<open>ED A0..BF 80..BF\<close> of its code point
  (a surrogate pair is the four bytes of the character it stands for). A
  number is the real it denotes (JSON has no NaN and no infinity; the script never
  computes with payload numbers, it only tests them), an object is the list of its own
  properties, keys distinct. \<open>JUndefined\<close> is what reading a missing property yields
  and what the slimmed examples hold for a field the source example lacks.
\<close>

datatype json =
    JUndefined
  | JNull
  | JBool bool
  | JNum real
  | JStr string
  | JArr "json list"
  | JObj "(string \<times> json) list"

text \<open>\<^verbatim>\<open>!v\<close> is \<open>\<not> truthy v\<close>.\<close>

fun truthy :: "json \<Rightarrow> bool" where
  "truthy JUndefined = False"
| "truthy JNull = False"
| "truthy (JBool b) = b"
| "truthy (JNum x) = (x \<noteq> 0)"
| "truthy (JStr s) = (s \<noteq> [])"
| "truthy (JArr xs) = True"
| "truthy (JObj kvs) = True"

text \<open>
  \<^verbatim>\<open>v.name\<close> for the property names the script reads (\<^verbatim>\<open>data\<close>, \<^verbatim>\<open>examples\<close>,
  \<^verbatim>\<open>category_count\<close>, \<^verbatim>\<open>sentence\<close>, ...; none of them is a property of a prototype).
  On \<^verbatim>\<open>null\<close> and \<^verbatim>\<open>undefined\<close> the read throws a TypeError: every caller below
  either guards the read by truthiness or tests \<open>nullish\<close> first and throws.
\<close>

fun field :: "json \<Rightarrow> string \<Rightarrow> json" where
  "field (JObj kvs) name = (case map_of kvs name of Some v \<Rightarrow> v | None \<Rightarrow> JUndefined)"
| "field v name = JUndefined"

fun nullish :: "json \<Rightarrow> bool" where
  "nullish JUndefined = True"
| "nullish JNull = True"
| "nullish v = False"

text \<open>
  \<^verbatim>\<open>v[0]\<close>: the first element of an array, the property \<^verbatim>\<open>"0"\<close> of an object, the
  first character of a string (kept as its first unit: only its truthiness is used).
\<close>

fun index0 :: "json \<Rightarrow> json" where
  "index0 (JArr xs) = (case xs of [] \<Rightarrow> JUndefined | x # _ \<Rightarrow> x)"
| "index0 (JObj kvs) = (case map_of kvs ''0'' of Some v \<Rightarrow> v | None \<Rightarrow> JUndefined)"
| "index0 (JStr s) = (case s of [] \<Rightarrow> JUndefined | c # _ \<Rightarrow> JStr [c])"
| "index0 v = JUndefined"

fun isArray :: "json \<Rightarrow> bool" where
  "isArray (JArr xs) = True"
| "isArray v = False"

text \<open>
  \<^verbatim>\<open>Object.values(v)\<close> for a truthy \<open>v\<close>: the property values of an object, the
  elements of an array, the characters of a string, nothing for a number or a boolean.
\<close>

fun object_values :: "json \<Rightarrow> json list" where
  "object_values (JObj kvs) = map snd kvs"
| "object_values (JArr xs) = xs"
| "object_values (JStr s) = map (\<lambda>c. JStr [c]) s"
| "object_values v = []"

text \<open>\<^verbatim>\<open>count === 0\<close>\<close>

fun is_zero :: "json \<Rightarrow> bool" where
  "is_zero (JNum x) = (x = 0)"
| "is_zero v = False"

section \<open>The script's state object\<close>

text \<open>
  The fields of the global \<^verbatim>\<open>state\<close> that the cache and the fetch pipeline read or
  write (the remaining ones belong to the display code).
\<close>

record state =
  currentExampleIndex :: nat
  examples :: json
  apiDataFetched :: bool
  vocab :: string
  exactSearch :: bool
  error :: bool

section \<open>validateApiResponse\<close>

text \<open>
  \<^verbatim>\<open>validateApiResponse(jsonData)\<close>, which writes \<^verbatim>\<open>state.error\<close> first and then
  returns at the first check that fails: \<open>None\<close> is \<^verbatim>\<open>null\<close>. Each read is guarded by
  the truthiness test before it, as in the source.
\<close>

definition validateApiResponse :: "json \<Rightarrow> state \<Rightarrow> string option \<times> state" where
  "validateApiResponse jsonData s0 =
     (let s = s0\<lparr>error := False\<rparr> in
      if \<not> truthy jsonData then (Some ''Not a valid JSON'', s)
      else if \<not> truthy (field jsonData ''data'')
            \<or> \<not> truthy (index0 (field jsonData ''data''))
            \<or> \<not> truthy (field (index0 (field jsonData ''data'')) ''examples'')
        then (Some ''Missing required data fields'', s)
      else let categoryCount = field (index0 (field jsonData ''data'')) ''category_count'' in
        if \<not> truthy categoryCount then (Some ''Missing category count'', s)
        else let allZero = list_all is_zero (object_values categoryCount) in
          if allZero then (Some ''Blank API'', s)
          else (None, s))"

text \<open>
  The reason as a function of the payload alone, the \<^verbatim>\<open>validate\<close> of the
  specification: the same four checks in the same order, without the state.
\<close>

definition validation_result :: "json \<Rightarrow> string option" where
  "validation_result jsonData =
     (if \<not> truthy jsonData then Some ''Not a valid JSON''
      else if \<not> truthy (field jsonData ''data'')
            \<or> \<not> truthy (index0 (field jsonData ''data''))
            \<or> \<not> truthy (field (index0 (field jsonData ''data'')) ''examples'')
        then Some ''Missing required data fields''
      else let categoryCount = field (index0 (field jsonData ''data'')) ''category_count'' in
        if \<not> truthy categoryCount then Some ''Missing category count''
        else if list_all is_zero (object_values categoryCount) then Some ''Blank API''
        else None)"

section \<open>Thrown values\<close>

text \<open>
  What a \<^verbatim>\<open>throw\<close> or a rejected promise carries: an error object with its name and
  message (\<^verbatim>\<open>new Error(m)\<close> is \<open>Exn ''Error'' m\<close>; the engine's TypeError and
  SyntaxError carry the engine's message text), or a plain string passed to
  \<^verbatim>\<open>reject\<close>.
\<close>

datatype thrown = Exn string string | Str string

text \<open>
  \<^verbatim>\<open>error.message\<close> inside a template literal: a string has no such property, and
  \<^verbatim>\<open>undefined\<close> prints as \<^verbatim>\<open>undefined\<close>.
\<close>

fun message :: "thrown \<Rightarrow> string" where
  "message (Exn name m) = m"
| "message (Str t) = ''undefined''"

text \<open>\<^verbatim>\<open>${error}\<close>\<close>

fun to_text :: "thrown \<Rightarrow> string" where
  "to_text (Exn name m) = (if m = [] then name else name @ '': '' @ m)"
| "to_text (Str t) = t"

text \<open>The TypeError of reading property \<open>name\<close> of \<^verbatim>\<open>null\<close> or \<^verbatim>\<open>undefined\<close>.\<close>

definition cannot_read :: "json \<Rightarrow> string \<Rightarrow> thrown" where
  "cannot_read v name = Exn ''TypeError''
     (''Cannot read properties of '' @ (if v = JNull then ''null'' else ''undefined'')
      @ '' (reading '' @ [CHR 0x27] @ name @ [CHR 0x27] @ '')'')"

text \<open>\<^verbatim>\<open>xs.map(f)\<close> where \<open>f\<close> may throw: the first throw ends the traversal.\<close>

fun map_throw :: "('a \<Rightarrow> thrown + 'b) \<Rightarrow> 'a list \<Rightarrow> thrown + 'b list" where
  "map_throw f [] = Inr []"
| "map_throw f (x # xs) =
     (case f x of
        Inl e \<Rightarrow> Inl e
      | Inr y \<Rightarrow> (case map_throw f xs of Inl e \<Rightarrow> Inl e | Inr ys \<Rightarrow> Inr (y # ys)))"

section \<open>The browser around the script\<close>

text \<open>
  A row of the object store \<^verbatim>\<open>dataStore\<close> of the database \<^verbatim>\<open>ImmersionKitDB\<close>, as
  \<^verbatim>\<open>save\<close> writes it. Timestamps are \<^verbatim>\<open>Date.now()\<close>, integers of milliseconds
  (the script's only arithmetic on them, the comparison of an age with the expiry time,
  has the same outcome on these integers as on its doubles).
\<close>

record row =
  keyword :: string
  data :: json
  timestamp :: int

text \<open>What the script does to its surroundings, in the order it does it.\<close>

datatype event =
    PrefsGet string
  | DbOpen
  | DbGet string
  | DbDelete string
  | DbGetAll
  | DbPut string
  | Fetch string
  | Sleep int
  | Render

text \<open>
  The surroundings: \<open>prefs\<close> is \<^verbatim>\<open>chrome.storage.local\<close> under the vocabulary keys
  (their values are strings), \<open>dataStore\<close> the rows of the object store in cursor order
  (ascending key), \<open>now\<close> the clock \<^verbatim>\<open>Date.now()\<close> reads, \<open>requests\<close> the number of
  \<^verbatim>\<open>fetch\<close> calls issued so far, \<open>trace\<close> the events so far. Requests to IndexedDB are
  taken to succeed (their \<^verbatim>\<open>onerror\<close> callbacks report failures of the platform).
\<close>

record world =
  prefs :: "string \<rightharpoonup> string"
  dataStore :: "row list"
  now :: int
  requests :: nat
  trace :: "event list"

definition emit :: "event list \<Rightarrow> world \<Rightarrow> world" where
  "emit es w = w\<lparr>trace := trace w @ es\<rparr>"

subsection \<open>The object store\<close>

text \<open>\<^verbatim>\<open>store.get(key)\<close>, \<^verbatim>\<open>store.delete(key)\<close>, \<^verbatim>\<open>store.put(row)\<close> (key path \<^verbatim>\<open>keyword\<close>).\<close>

definition store_get :: "string \<Rightarrow> row list \<Rightarrow> row option" where
  "store_get k rows = find (\<lambda>r. keyword r = k) rows"

definition store_delete :: "string \<Rightarrow> row list \<Rightarrow> row list" where
  "store_delete k rows = filter (\<lambda>r. keyword r \<noteq> k) rows"

fun store_put :: "row \<Rightarrow> row list \<Rightarrow> row list" where
  "store_put r [] = [r]"
| "store_put r (x # xs) =
     (if keyword x = keyword r then r # xs
      else if keyword r < keyword x then r # x # xs
      else x # store_put r xs)"

section \<open>IndexedDBManager\<close>

definition MAX_ENTRIES :: nat where
  "MAX_ENTRIES = 100000000"

definition EXPIRATION_TIME :: int where
  "EXPIRATION_TIME = 30 * 24 * 60 * 60 * 1000 * 12 * 10000"

definition IndexedDBManager_open :: "world \<Rightarrow> world" where
  "IndexedDBManager_open w = emit [DbOpen] w"

definition IndexedDBManager_deleteEntry :: "string \<Rightarrow> world \<Rightarrow> world" where
  "IndexedDBManager_deleteEntry kw w =
     emit [DbDelete kw] (w\<lparr>dataStore := store_delete kw (dataStore w)\<rparr>)"

text \<open>
  \<^verbatim>\<open>get(db, keyword)\<close>: \<open>None\<close> is \<^verbatim>\<open>null\<close>. The validator runs on every row found,
  before the expiry test is looked at.
\<close>

definition IndexedDBManager_get :: "string \<Rightarrow> state \<Rightarrow> world \<Rightarrow> json option \<times> state \<times> world" where
  "IndexedDBManager_get kw s w =
     (let w1 = emit [DbGet kw] w in
      case store_get kw (dataStore w1) of
        None \<Rightarrow> (None, s, w1)
      | Some result \<Rightarrow>
          let isExpired = (now w1 - timestamp result \<ge> EXPIRATION_TIME);
              (validationError, s1) = validateApiResponse (data result) s
          in if isExpired then (None, s1, IndexedDBManager_deleteEntry kw w1)
             else if validationError \<noteq> None then (None, s1, IndexedDBManager_deleteEntry kw w1)
             else (Some (data result), s1, w1))"

definition IndexedDBManager_getAll :: "world \<Rightarrow> row list \<times> world" where
  "IndexedDBManager_getAll w = (dataStore w, emit [DbGetAll] w)"

text \<open>The record \<^verbatim>\<open>save\<close> builds for one example.\<close>

definition slim_example :: "json \<Rightarrow> thrown + json" where
  "slim_example example =
     (if nullish example then Inl (cannot_read example ''image_url'')
      else Inr (JObj
        [(''image_url'', field example ''image_url''),
         (''sound_url'', field example ''sound_url''),
         (''sentence'', field example ''sentence''),
         (''translation'', field example ''translation''),
         (''deck_name'', field example ''deck_name'')]))"

fun elements :: "json \<Rightarrow> json list" where
  "elements (JArr xs) = xs"
| "elements v = []"

text \<open>The callback of \<^verbatim>\<open>data.data.map\<close>.\<close>

definition slim_item :: "json \<Rightarrow> thrown + json" where
  "slim_item item =
     (if nullish item then Inl (cannot_read item ''category_count'')
      else
        let counts = (if truthy (field item ''category_count'')
                      then [(''category_count'', field item ''category_count'')] else [])
        in if truthy (field item ''examples'') \<and> isArray (field item ''examples'')
           then (case map_throw slim_example (elements (field item ''examples'')) of
                   Inl e \<Rightarrow> Inl e
                 | Inr exs \<Rightarrow> Inr (JObj (counts @ [(''examples'', JArr exs)])))
           else Inr (JObj counts))"

text \<open>
  The slimming block of \<^verbatim>\<open>save\<close>: \<open>Inr None\<close> is its \<^verbatim>\<open>else\<close> branch (nothing to
  slim, the promise resolves), \<open>Inl\<close> a throw inside the \<^verbatim>\<open>try\<close>; \<^verbatim>\<open>map\<close> is a
  method of arrays only.
\<close>

definition slim_data :: "json \<Rightarrow> thrown + json option" where
  "slim_data d =
     (if truthy d \<and> truthy (field d ''data'') then
        (case field d ''data'' of
           JArr items \<Rightarrow>
             (case map_throw slim_item items of
                Inl e \<Rightarrow> Inl e
              | Inr slimItems \<Rightarrow> Inr (Some (JObj [(''data'', JArr slimItems)])))
         | _ \<Rightarrow> Inl (Exn ''TypeError'' ''data.data.map is not a function''))
      else Inr None)"

text \<open>The keys \<^verbatim>\<open>save\<close> deletes to make room: the oldest rows, in a stable sort by timestamp.\<close>

definition entriesToDelete :: "row list \<Rightarrow> row list" where
  "entriesToDelete entries =
     (if length entries \<ge> MAX_ENTRIES
      then take (length entries - MAX_ENTRIES + 1) (sort_key timestamp entries)
      else [])"

text \<open>
  \<^verbatim>\<open>save(db, keyword, data)\<close>: \<open>Inr ()\<close> is the resolved promise, \<open>Inl\<close> the rejected
  one.
\<close>

definition IndexedDBManager_save ::
  "string \<Rightarrow> json \<Rightarrow> state \<Rightarrow> world \<Rightarrow> (thrown + unit) \<times> state \<times> world" where
  "IndexedDBManager_save kw d s w =
     (let (validationError, s1) = validateApiResponse d s in
      if validationError \<noteq> None then (Inr (), s1, w)
      else case slim_data d of
        Inl e \<Rightarrow> (Inl (Str (''Error in saveToIndexedDB: '' @ to_text e)), s1, w)
      | Inr None \<Rightarrow> (Inr (), s1, w)
      | Inr (Some slimData) \<Rightarrow>
          let (entries, w1) = IndexedDBManager_getAll w;
              doomed = map keyword (entriesToDelete entries);
              kept = fold store_delete doomed (dataStore w1);
              w2 = emit (map DbDelete doomed @ [DbPut kw])
                     (w1\<lparr>dataStore :=
                        store_put \<lparr>keyword = kw, data = slimData, timestamp = now w1\<rparr> kept\<rparr>)
          in (Inr (), s1, w2))"

text \<open>\<^verbatim>\<open>IndexedDBManager.delete()\<close>, when it is not blocked, drops the database.\<close>

definition IndexedDBManager_delete :: "world \<Rightarrow> world" where
  "IndexedDBManager_delete w = w\<lparr>dataStore := []\<rparr>"

section \<open>String functions of the platform\<close>

text \<open>\<^verbatim>\<open>s.split(",")\<close>: the empty string splits into one empty piece.\<close>

fun split_on :: "char \<Rightarrow> string \<Rightarrow> string list" where
  "split_on c [] = [] # []"
| "split_on c (x # xs) =
     (if x = c then [] # split_on c xs
      else (case split_on c xs of [] \<Rightarrow> [x] # [] | y # ys \<Rightarrow> (x # y) # ys))"

text \<open>
  The white space \<^verbatim>\<open>parseInt\<close> skips, in UTF-8: the one-byte characters U+0009 to
  U+000D and U+0020, U+00A0, and the three-byte characters U+1680, U+2000 to U+200A,
  U+2028, U+2029, U+202F, U+205F, U+3000 and U+FEFF.
\<close>

definition is_ws1 :: "char \<Rightarrow> bool" where
  "is_ws1 a = ((9::nat) \<le> of_char a \<and> (of_char a :: nat) \<le> 13 \<or> (of_char a :: nat) = 32)"

definition is_ws2 :: "char \<Rightarrow> char \<Rightarrow> bool" where
  "is_ws2 a b = ((of_char a :: nat) = 0xC2 \<and> (of_char b :: nat) = 0xA0)"

definition is_ws3 :: "char \<Rightarrow> char \<Rightarrow> char \<Rightarrow> bool" where
  "is_ws3 a b c =
     (let x = (of_char a :: nat); y = (of_char b :: nat); z = (of_char c :: nat) in
      (x = 0xE1 \<and> y = 0x9A \<and> z = 0x80)
      \<or> (x = 0xE2 \<and> y = 0x80 \<and> (0x80 \<le> z \<and> z \<le> 0x8A \<or> z = 0xA8 \<or> z = 0xA9 \<or> z = 0xAF))
      \<or> (x = 0xE2 \<and> y = 0x81 \<and> z = 0x9F)
      \<or> (x = 0xE3 \<and> y = 0x80 \<and> z = 0x80)
      \<or> (x = 0xEF \<and> y = 0xBB \<and> z = 0xBF))"

fun strip_ws :: "string \<Rightarrow> string" where
  "strip_ws (a # b # c # rest) =
     (if is_ws1 a then strip_ws (b # c # rest)
      else if is_ws2 a b then strip_ws (c # rest)
      else if is_ws3 a b c then strip_ws rest
      else a # b # c # rest)"
| "strip_ws [a, b] =
     (if is_ws1 a then strip_ws [b] else if is_ws2 a b then [] else [a, b])"
| "strip_ws [a] = (if is_ws1 a then [] else [a])"
| "strip_ws [] = []"

definition is_digit :: "char \<Rightarrow> bool" where
  "is_digit c = ((48::nat) \<le> of_char c \<and> (of_char c :: nat) \<le> 57)"

definition digit_value :: "char \<Rightarrow> int" where
  "digit_value c = int (of_char c) - 48"

text \<open>
  \<^verbatim>\<open>parseInt(s, 10)\<close>: white space, an optional sign, then the longest run of decimal
  digits; \<open>None\<close> is \<^verbatim>\<open>NaN\<close>, the result when there is no digit.
\<close>

definition parseInt10 :: "string \<Rightarrow> int option" where
  "parseInt10 s =
     (let t = strip_ws s;
          (sign, u) = (case t of
                         [] \<Rightarrow> (1, [])
                       | c # r \<Rightarrow> if c = CHR ''-'' then (- 1, r)
                                  else if c = CHR ''+'' then (1, r) else (1::int, t));
          ds = takeWhile is_digit u
      in if ds = [] then None
         else Some (sign * foldl (\<lambda>acc c. acc * 10 + digit_value c) 0 ds))"

text \<open>The decimal text of a number in a template literal.\<close>

fun show_nat :: "nat \<Rightarrow> string" where
  "show_nat n =
     (if n < 10 then [char_of (48 + n)]
      else show_nat (n div 10) @ [char_of (48 + n mod 10)])"

declare show_nat.simps [simp del]

text \<open>A string holds a lone surrogate: the byte \<^verbatim>\<open>ED\<close> with a byte from \<^verbatim>\<open>A0\<close> to \<^verbatim>\<open>BF\<close> after it.\<close>

fun lone_surrogate :: "string \<Rightarrow> bool" where
  "lone_surrogate (a # b # rest) =
     (((of_char a :: nat) = 0xED \<and> (0xA0::nat) \<le> of_char b \<and> (of_char b :: nat) \<le> 0xBF)
      \<or> lone_surrogate (b # rest))"
| "lone_surrogate [a] = False"
| "lone_surrogate [] = False"

text \<open>
  The escaping of \<^verbatim>\<open>encodeURIComponent\<close>: letters, digits and
  \<^verbatim>\<open>- _ . ! ~ * ' ( )\<close> stay, every other byte of the UTF-8 text becomes \<^verbatim>\<open>%XX\<close>.
\<close>

definition unreserved :: "char \<Rightarrow> bool" where
  "unreserved c =
     (let n = (of_char c :: nat) in
      (65 \<le> n \<and> n \<le> 90) \<or> (97 \<le> n \<and> n \<le> 122) \<or> (48 \<le> n \<and> n \<le> 57)
      \<or> c \<in> set (''-_.!~*()'' @ [CHR 0x27]))"

definition hex_digit :: "nat \<Rightarrow> char" where
  "hex_digit n = (if n < 10 then char_of (48 + n) else char_of (55 + n))"

definition percent_encode :: "string \<Rightarrow> string" where
  "percent_encode s =
     concat (map (\<lambda>c. if unreserved c then [c]
                       else [CHR ''%'', hex_digit (of_char c div 16), hex_digit (of_char c mod 16)]) s)"

text \<open>
  \<^verbatim>\<open>encodeURIComponent(s)\<close>: it throws a URIError when the string holds a lone
  surrogate, and escapes the string otherwise.
\<close>

definition encodeURIComponent :: "string \<Rightarrow> thrown + string" where
  "encodeURIComponent s =
     (if lone_surrogate s then Inl (Exn ''URIError'' ''URI malformed'')
      else Inr (percent_encode s))"

text \<open>
  The marks the source puts around the term of an exact search: the characters U+201E,
  U+00C4, U+00E5 before it and U+201E, U+00C4, U+00E7 after it, as the template
  literals of \<^verbatim>\<open>content.js\<close> hold them.
\<close>

definition open_bracket :: string where
  "open_bracket = [CHR 0xE2, CHR 0x80, CHR 0x9E, CHR 0xC3, CHR 0x84, CHR 0xC3, CHR 0xA5]"

definition close_bracket :: string where
  "close_bracket = [CHR 0xE2, CHR 0x80, CHR 0x9E, CHR 0xC3, CHR 0x84, CHR 0xC3, CHR 0xA7]"

text \<open>\<^verbatim>\<open>searchVocab\<close>: the term, inside the marks when the search is exact.\<close>

definition search_key :: "string \<Rightarrow> bool \<Rightarrow> string" where
  "search_key vocabArg exact =
     (if exact then open_bracket @ vocabArg @ close_bracket else vocabArg)"

text \<open>
  The template literal of the URL, which throws what \<^verbatim>\<open>encodeURIComponent\<close> throws;
  \<open>look_up_url k\<close> is the URL it yields when nothing is thrown.
\<close>

definition api_prefix :: string where
  "api_prefix = ''https://api.immersionkit.com/look_up_dictionary?keyword=''"

definition build_url :: "string \<Rightarrow> thrown + string" where
  "build_url k =
     (case encodeURIComponent k of Inl e \<Rightarrow> Inl e | Inr c \<Rightarrow> Inr (api_prefix @ c))"

definition look_up_url :: "string \<Rightarrow> string" where
  "look_up_url k = api_prefix @ percent_encode k"

section \<open>The remote API\<close>

text \<open>
  What one \<^verbatim>\<open>fetch\<close> brings back: a rejection (network failure, with the engine's
  message), or a response with its status and its body, which \<^verbatim>\<open>response.json()\<close>
  either parses or rejects (SyntaxError). The remote side is a function from the URL and
  the number of the request to the outcome.
\<close>

datatype body = BadJson string | Body json

datatype response = NetworkError string | Response nat body

type_synonym remote = "string \<Rightarrow> nat \<Rightarrow> response"

text \<open>\<^verbatim>\<open>response.ok\<close>\<close>

definition ok :: "nat \<Rightarrow> bool" where
  "ok status = (200 \<le> status \<and> status \<le> 299)"

definition do_fetch :: "remote \<Rightarrow> string \<Rightarrow> world \<Rightarrow> response \<times> world" where
  "do_fetch api url w =
     (api url (requests w), emit [Fetch url] (w\<lparr>requests := requests w + 1\<rparr>))"

text \<open>
  The lines from \<^verbatim>\<open>fetch(url)\<close> to \<^verbatim>\<open>response.json()\<close>, shared by the two functions
  that call the API: the parsed body or what is thrown.
\<close>

definition fetch_json :: "response \<Rightarrow> thrown + json" where
  "fetch_json r =
     (case r of
        NetworkError m \<Rightarrow> Inl (Exn ''TypeError'' m)
      | Response status b \<Rightarrow>
          if \<not> ok status then Inl (Exn ''Error'' (''HTTP error! status: '' @ show_nat status))
          else (case b of BadJson m \<Rightarrow> Inl (Exn ''SyntaxError'' m) | Body j \<Rightarrow> Inr j))"

section \<open>getImmersionKitData\<close>

definition chromeStorage_get :: "string \<Rightarrow> world \<Rightarrow> string option \<times> world" where
  "chromeStorage_get key w = (prefs w key, emit [PrefsGet key] w)"

text \<open>The test on the stored preference; \<open>None\<close> is \<^verbatim>\<open>undefined\<close>, no record.\<close>

definition isBlacklisted :: "string option \<Rightarrow> bool" where
  "isBlacklisted storedValue =
     (case storedValue of
        None \<Rightarrow> False
      | Some v \<Rightarrow> v \<noteq> [] \<and> length (split_on CHR '','' v) > 1
                 \<and> parseInt10 (split_on CHR '','' v ! 1) = Some 2)"

definition maxRetries :: nat where
  "maxRetries = 5"

text \<open>
  \<^verbatim>\<open>await new Promise((resolve) => setTimeout(resolve, ms))\<close>. The clock of the model
  moves here only, by the length of the timeout.
\<close>

definition sleep :: "int \<Rightarrow> world \<Rightarrow> world" where
  "sleep ms w = emit [Sleep ms] (w\<lparr>now := now w + ms\<rparr>)"

text \<open>
  The two \<^verbatim>\<open>catch\<close> blocks of \<^verbatim>\<open>fetchData\<close> in a row: the inner one wraps what was
  thrown, the outer one sets \<^verbatim>\<open>state.error\<close>, redraws and throws again.
\<close>

definition caught :: "thrown \<Rightarrow> state \<Rightarrow> world \<Rightarrow> (thrown + unit) \<times> state \<times> world" where
  "caught e s w =
     (Inl (Exn ''Error'' (''Fetch error: '' @ message e)), s\<lparr>error := True\<rparr>, emit [Render] w)"

text \<open>
  \<^verbatim>\<open>cachedData && Array.isArray(cachedData.data) && cachedData.data.length > 0\<close>
\<close>

definition cache_hit :: "json option \<Rightarrow> bool" where
  "cache_hit cachedData =
     (case cachedData of
        None \<Rightarrow> False
      | Some c \<Rightarrow> truthy c \<and> isArray (field c ''data'') \<and> length (elements (field c ''data'')) > 0)"

text \<open>\<^verbatim>\<open>cachedData.data[0].examples\<close>, read after the test above.\<close>

definition cached_examples :: "json option \<Rightarrow> json" where
  "cached_examples cachedData =
     (case cachedData of
        None \<Rightarrow> JUndefined
      | Some c \<Rightarrow> field (index0 (field c ''data'')) ''examples'')"

text \<open>
  \<^verbatim>\<open>fetchData\<close>, with the counter \<^verbatim>\<open>attempt\<close> of the enclosing function as an
  argument. The retry is \<^verbatim>\<open>return fetchData()\<close>, not awaited inside the \<^verbatim>\<open>try\<close>: what
  the inner call throws passes through the \<^verbatim>\<open>catch\<close> blocks of the outer call
  unchanged.
\<close>

function fetchData ::
  "remote \<Rightarrow> string \<Rightarrow> string \<Rightarrow> nat \<Rightarrow> state \<Rightarrow> world \<Rightarrow> (thrown + unit) \<times> state \<times> world" where
  "fetchData api searchVocab url attempt s w =
     (let w1 = IndexedDBManager_open w;
          (cachedData, s1, w2) = IndexedDBManager_get searchVocab s w1
      in if cache_hit cachedData then
           (Inr (), s1\<lparr>examples := cached_examples cachedData, apiDataFetched := True\<rparr>, w2)
         else
           let (r, w3) = do_fetch api url w2 in
           case fetch_json r of
             Inl e \<Rightarrow> caught e s1 w3
           | Inr jsonData \<Rightarrow>
               let (validationError, s2) = validateApiResponse jsonData s1 in
               (case validationError of
                  None \<Rightarrow>
                    let s3 = s2\<lparr>examples := field (index0 (field jsonData ''data'')) ''examples'',
                                apiDataFetched := True\<rparr>;
                        (saved, s4, w4) = IndexedDBManager_save searchVocab jsonData s3 w3
                    in (case saved of Inl e \<Rightarrow> caught e s4 w4 | Inr u \<Rightarrow> (Inr (), s4, w4))
                | Some reason \<Rightarrow>
                    if attempt + 1 < maxRetries
                    then fetchData api searchVocab url (attempt + 1) s2 (sleep 2000 w3)
                    else caught (Exn ''Error'' (''Invalid API response after ''
                                   @ show_nat maxRetries @ '' attempts: '' @ reason)) s2 w3))"
  by pat_completeness auto
termination
  by (relation "measure (\<lambda>(api, searchVocab, url, attempt, s, w). maxRetries - attempt)") auto

declare fetchData.simps [simp del]

text \<open>
  \<^verbatim>\<open>getImmersionKitData(vocab, exactSearch)\<close>. The URL is built first, outside any
  \<^verbatim>\<open>try\<close>: what that throws rejects the call before anything else is done. The
  preference is read under \<^verbatim>\<open>state.vocab\<close>; both callers pass \<^verbatim>\<open>state.vocab\<close> as
  the first argument.
\<close>

definition getImmersionKitData ::
  "remote \<Rightarrow> string \<Rightarrow> bool \<Rightarrow> state \<Rightarrow> world \<Rightarrow> (thrown + unit) \<times> state \<times> world" where
  "getImmersionKitData api vocabArg exact s w =
     (let searchVocab = search_key vocabArg exact in
      case build_url searchVocab of
        Inl e \<Rightarrow> (Inl e, s, w)
      | Inr url \<Rightarrow>
          let (storedValue, w1) = chromeStorage_get (vocab s) w
          in if isBlacklisted storedValue then (Inr (), s, w1)
             else fetchData api searchVocab url 0 s w1)"

section \<open>findExampleBySentence\<close>

text \<open>\<^verbatim>\<open>for (const data of v)\<close>: arrays and strings are iterable, nothing else here is.\<close>

definition iterate :: "json \<Rightarrow> thrown + json list" where
  "iterate v =
     (case v of
        JArr xs \<Rightarrow> Inr xs
      | JStr t \<Rightarrow> Inr (map (\<lambda>c. JStr [c]) t)
      | _ \<Rightarrow> Inl (Exn ''TypeError'' ''jsonData.data is not iterable''))"

text \<open>\<^verbatim>\<open>examples.filter((example) => example.sentence === sentence)\<close>\<close>

fun filter_sentence :: "string \<Rightarrow> json list \<Rightarrow> thrown + json list" where
  "filter_sentence sentence [] = Inr []"
| "filter_sentence sentence (example # rest) =
     (if nullish example then Inl (cannot_read example ''sentence'')
      else (case filter_sentence sentence rest of
              Inl e \<Rightarrow> Inl e
            | Inr ms \<Rightarrow> Inr (if field example ''sentence'' = JStr sentence
                              then example # ms else ms)))"

text \<open>The loop over the results, with \<^verbatim>\<open>matchingExamples\<close> as the accumulator.\<close>

fun matching_loop :: "string \<Rightarrow> json list \<Rightarrow> json list \<Rightarrow> thrown + json list" where
  "matching_loop sentence [] matchingExamples = Inr matchingExamples"
| "matching_loop sentence (d # ds) matchingExamples =
     (if nullish d then Inl (cannot_read d ''examples'')
      else if truthy (field d ''examples'') then
        (case field d ''examples'' of
           JArr exs \<Rightarrow>
             (case filter_sentence sentence exs of
                Inl e \<Rightarrow> Inl e
              | Inr ms \<Rightarrow> matching_loop sentence ds (matchingExamples @ ms))
         | _ \<Rightarrow> Inl (Exn ''TypeError'' ''data.examples.filter is not a function''))
      else matching_loop sentence ds matchingExamples)"

text \<open>
  The body of the \<^verbatim>\<open>try\<close> after the body is parsed: \<open>Inr (Some v)\<close> is
  \<^verbatim>\<open>return matchingExamples[occurrenceIndex]\<close>, \<open>Inr None\<close> falls through to the
  \<^verbatim>\<open>return null\<close> at the end. \<open>occurrenceIndex\<close> is the result of a \<^verbatim>\<open>parseInt\<close>:
  an integer, or \<open>None\<close> for \<^verbatim>\<open>NaN\<close> (every comparison with it is false); an index
  below zero reads \<^verbatim>\<open>undefined\<close>.
\<close>

definition find_match :: "string \<Rightarrow> int option \<Rightarrow> json \<Rightarrow> thrown + json option" where
  "find_match sentence occurrenceIndex jsonData =
     (if \<not> nullish jsonData \<and> truthy (field jsonData ''data'') then
        (case iterate (field jsonData ''data'') of
           Inl e \<Rightarrow> Inl e
         | Inr ds \<Rightarrow>
             (case matching_loop sentence ds [] of
                Inl e \<Rightarrow> Inl e
              | Inr matchingExamples \<Rightarrow>
                  (case occurrenceIndex of
                     None \<Rightarrow> Inr None
                   | Some i \<Rightarrow>
                       if int (length matchingExamples) > i
                       then Inr (Some (if 0 \<le> i then matchingExamples ! nat i else JUndefined))
                       else Inr None)))
      else Inr None)"

text \<open>
  \<^verbatim>\<open>findExampleBySentence(sentence, occurrenceIndex)\<close>: \<open>Inl\<close> is a rejection that
  reaches the caller, \<open>Inr\<close> the value returned. The URL is built before the \<^verbatim>\<open>try\<close>,
  so what \<^verbatim>\<open>encodeURIComponent\<close> throws reaches the caller; everything after it sits
  in the \<^verbatim>\<open>try\<close>, whose \<^verbatim>\<open>catch\<close> logs and falls through to \<^verbatim>\<open>return null\<close>.
\<close>

definition findExampleBySentence ::
  "remote \<Rightarrow> string \<Rightarrow> int option \<Rightarrow> world \<Rightarrow> (thrown + json) \<times> world" where
  "findExampleBySentence api sentence occurrenceIndex w =
     (case build_url (open_bracket @ sentence @ close_bracket) of
        Inl e \<Rightarrow> (Inl e, w)
      | Inr searchUrl \<Rightarrow>
          let (r, w1) = do_fetch api searchUrl w;
              tried = (case fetch_json r of
                         Inl e \<Rightarrow> Inl e
                       | Inr jsonData \<Rightarrow> find_match sentence occurrenceIndex jsonData)
          in case tried of
               Inr (Some example) \<Rightarrow> (Inr example, w1)
             | Inr None \<Rightarrow> (Inr JNull, w1)
             | Inl e \<Rightarrow> (Inr JNull, w1))"

section \<open>Concrete inputs\<close>

text \<open>The states, stores and payloads at which the theorems below are evaluated.\<close>

definition idle_state :: state where
  "idle_state = \<lparr>currentExampleIndex = 0, examples = JArr [], apiDataFetched = False,
     vocab = ''neko'', exactSearch = False, error = False\<rparr>"

definition failed_state :: state where
  "failed_state = idle_state\<lparr>error := True\<rparr>"

definition fresh_world :: world where
  "fresh_world = \<lparr>prefs = Map.empty, dataStore = [], now = 1000, requests = 0, trace = []\<rparr>"

text \<open>The payloads of the scenario of the specification.\<close>

definition payload_blank :: json where
  "payload_blank = JObj [(''data'', JArr [JObj
     [(''category_count'', JObj [(''a'', JNum 0), (''b'', JNum 0)]),
      (''examples'', JArr [JObj [(''sentence'', JStr ''x'')]])]])]"

definition payload_good :: json where
  "payload_good = JObj [(''data'', JArr [JObj
     [(''category_count'', JObj [(''a'', JNum 1)]),
      (''examples'', JArr [JObj [(''sentence'', JStr ''x'')]])]])]"

text \<open>The row \<^verbatim>\<open>save\<close> writes for \<open>payload_good\<close> at time 1000, and a store holding it.\<close>

definition stored_good :: json where
  "stored_good = JObj [(''data'', JArr [JObj
     [(''category_count'', JObj [(''a'', JNum 1)]),
      (''examples'', JArr [JObj
         [(''image_url'', JUndefined), (''sound_url'', JUndefined),
          (''sentence'', JStr ''x''), (''translation'', JUndefined),
          (''deck_name'', JUndefined)]])]])]"

definition cached_world :: "int \<Rightarrow> world" where
  "cached_world t = fresh_world
     \<lparr>dataStore := [\<lparr>keyword = ''neko'', data = stored_good, timestamp = 1000\<rparr>], now := t\<rparr>"

text \<open>Payloads that pass the validator with an examples field that holds no example.\<close>

definition payload_text_examples :: json where
  "payload_text_examples = JObj [(''data'', JArr [JObj
     [(''category_count'', JObj [(''a'', JNum 1)]), (''examples'', JStr ''x'')]])]"

definition payload_no_examples :: json where
  "payload_no_examples = JObj [(''data'', JArr [JObj
     [(''category_count'', JObj [(''a'', JNum 1)]), (''examples'', JArr [])]])]"

definition stored_no_examples :: json where
  "stored_no_examples = JObj [(''data'', JArr [JObj
     [(''category_count'', JObj [(''a'', JNum 1)]), (''examples'', JArr [])]])]"

text \<open>Remote sides: one that always answers with the blank payload, one that does so
  twice and then answers 503, one that always answers 503, one that always answers with
  the good payload.\<close>

definition always_blank :: remote where
  "always_blank url n = Response 200 (Body payload_blank)"

definition blank_then_503 :: remote where
  "blank_then_503 url n =
     (if n < 2 then Response 200 (Body payload_blank) else Response 503 (Body JNull))"

definition always_503 :: remote where
  "always_503 url n = Response 503 (Body JNull)"

definition always_good :: remote where
  "always_good url n = Response 200 (Body payload_good)"

text \<open>Surroundings in which the preference of the term \<^verbatim>\<open>neko\<close> carries the flag 2.\<close>

definition blacklisting_world :: world where
  "blacklisting_world = fresh_world\<lparr>prefs := [''neko'' \<mapsto> ''neko wa,2'']\<rparr>"

text \<open>
  Counterparts: a record whose sentence holds a comma, a record kept under another term
  than the page's current one, and a term that is a lone surrogate (U+D800) with a
  record of its own.
\<close>

definition comma_world :: world where
  "comma_world = fresh_world\<lparr>prefs := [''neko'' \<mapsto> ''a,b,2'']\<rparr>"

definition other_term_world :: world where
  "other_term_world = fresh_world\<lparr>prefs := [''inu'' \<mapsto> ''inu da,2'']\<rparr>"

definition lone_term :: string where
  "lone_term = [CHR 0xED, CHR 0xA0, CHR 0x80]"

definition lone_state :: state where
  "lone_state = idle_state\<lparr>vocab := lone_term\<rparr>"

definition lone_world :: world where
  "lone_world = fresh_world\<lparr>prefs := [lone_term \<mapsto> ''x,2'']\<rparr>"

section \<open>Notions of the specification\<close>

text \<open>\<^verbatim>\<open>put(k, p)\<close> followed at once by \<^verbatim>\<open>get(k)\<close>: what each returns, and the end state.\<close>

definition put_then_get ::
  "string \<Rightarrow> json \<Rightarrow> state \<Rightarrow> world \<Rightarrow> (thrown + unit) \<times> json option \<times> state \<times> world" where
  "put_then_get k p s w =
     (let (saved, s1, w1) = IndexedDBManager_save k p s w;
          (got, s2, w2) = IndexedDBManager_get k s1 w1
      in (saved, got, s2, w2))"

text \<open>
  The slimmed projection of an example in the words of the specification: exactly the
  fields \<^verbatim>\<open>image_url\<close>, \<^verbatim>\<open>sound_url\<close>, \<^verbatim>\<open>sentence\<close>, \<^verbatim>\<open>translation\<close> and
  \<^verbatim>\<open>deck_name\<close>, each with the value the example has for it.
\<close>

definition slim_projection :: "json \<Rightarrow> json" where
  "slim_projection example =
     JObj (map (\<lambda>name. (name, field example name))
       [''image_url'', ''sound_url'', ''sentence'', ''translation'', ''deck_name''])"

text \<open>
  A payload of the shape the remote API documents: the results are an array without
  \<^verbatim>\<open>null\<close> entries, no list of examples has a \<^verbatim>\<open>null\<close> entry, and the examples of
  the first result are an array.
\<close>

definition well_shaped :: "json \<Rightarrow> bool" where
  "well_shaped p =
     (case field p ''data'' of
        JArr items \<Rightarrow>
          list_all (\<lambda>item. \<not> nullish item
                      \<and> list_all (\<lambda>ex. \<not> nullish ex) (elements (field item ''examples''))) items
          \<and> isArray (field (index0 (JArr items)) ''examples'')
      | _ \<Rightarrow> False)"

text \<open>
  The states of the object store that the operations of \<^verbatim>\<open>IndexedDBManager\<close> can
  produce from the empty store, whatever the arguments, the clock and the script's state.
  No other code writes to the store.
\<close>

inductive reachable :: "row list \<Rightarrow> bool" where
  reachable_init: "reachable []"
| reachable_save:
    "reachable (dataStore w) \<Longrightarrow> reachable (dataStore (snd (snd (IndexedDBManager_save k d s w))))"
| reachable_get:
    "reachable (dataStore w) \<Longrightarrow> reachable (dataStore (snd (snd (IndexedDBManager_get k s w))))"
| reachable_deleteEntry:
    "reachable (dataStore w) \<Longrightarrow> reachable (dataStore (IndexedDBManager_deleteEntry k w))"
| reachable_delete: "reachable (dataStore (IndexedDBManager_delete w))"

text \<open>
  The reason the validator gives for the body of a response, when the response arrives
  with a 2xx status and a body that parses; \<open>None\<close> when the payload is valid or when
  there is no payload.
\<close>

definition rejected_reason :: "response \<Rightarrow> string option" where
  "rejected_reason r = (case fetch_json r of Inl e \<Rightarrow> None | Inr j \<Rightarrow> validation_result j)"

text \<open>What \<^verbatim>\<open>get\<close> returns depends on the store and the clock only.\<close>

definition looked_up :: "string \<Rightarrow> row list \<Rightarrow> int \<Rightarrow> json option" where
  "looked_up k rows t =
     (case store_get k rows of
        None \<Rightarrow> None
      | Some r \<Rightarrow> if t - timestamp r \<ge> EXPIRATION_TIME \<or> validation_result (data r) \<noteq> None
                  then None else Some (data r))"

text \<open>The events of one attempt that ends in a retry, and the surroundings after \<open>n\<close> of them.\<close>

definition retry_round :: "string \<Rightarrow> string \<Rightarrow> event list" where
  "retry_round k url = [DbOpen, DbGet k, Fetch url, Sleep 2000]"

definition after_rounds :: "nat \<Rightarrow> string \<Rightarrow> string \<Rightarrow> world \<Rightarrow> world" where
  "after_rounds n k url w =
     w\<lparr>requests := requests w + n, now := now w + 2000 * int n,
       trace := trace w @ concat (replicate n (retry_round k url))\<rparr>"

definition cleared :: "nat \<Rightarrow> state \<Rightarrow> state" where
  "cleared n s = (if n = 0 then s else s\<lparr>error := False\<rparr>)"

section \<open>Properties of the validator\<close>

text \<open>The function returns the reason of the payload and clears the flag.\<close>

lemma validateApiResponse_eq:
  "validateApiResponse p s = (validation_result p, s\<lparr>error := False\<rparr>)"
  by (simp add: validateApiResponse_def validation_result_def Let_def)

text \<open>
  C2 (counterexample). The claim has \<^verbatim>\<open>validate({})\<close> stop at the first check. In the
  code the first check is \<^verbatim>\<open>!jsonData\<close>, and an empty object is truthy: the empty
  object passes the first check (and is rejected by the second).
\<close>

theorem validate_empty_object_second_check:
  "fst (validateApiResponse (JObj []) idle_state) \<noteq> Some ''Not a valid JSON''"
  by (simp add: validateApiResponse_eq validation_result_def)

text \<open>
  C2 (amended). The four checks are applied in order and the first failure wins: a falsy
  payload (\<^verbatim>\<open>null\<close>, \<^verbatim>\<open>undefined\<close>) gives \<^verbatim>\<open>"Not a valid JSON"\<close>; the empty object
  gives the second reason, \<^verbatim>\<open>"Missing required data fields"\<close>; the payload whose
  category counts are all zero gives \<^verbatim>\<open>"Blank API"\<close>; the payload with a non-zero count
  gives \<^verbatim>\<open>null\<close>. The last conjunct is the order in general: the returned reason is
  that of the first check that fails.
\<close>

theorem validate_checks_in_order:
  "fst (validateApiResponse JNull s) = Some ''Not a valid JSON''
   \<and> fst (validateApiResponse JUndefined s) = Some ''Not a valid JSON''
   \<and> fst (validateApiResponse (JObj []) s) = Some ''Missing required data fields''
   \<and> fst (validateApiResponse payload_blank s) = Some ''Blank API''
   \<and> fst (validateApiResponse payload_good s) = None
   \<and> fst (validateApiResponse p s) =
       (let first = index0 (field p ''data''); cc = field first ''category_count'' in
        if \<not> truthy p then Some ''Not a valid JSON''
        else if \<not> (truthy (field p ''data'') \<and> truthy first \<and> truthy (field first ''examples''))
          then Some ''Missing required data fields''
        else if \<not> truthy cc then Some ''Missing category count''
        else if (\<forall>v \<in> set (object_values cc). v = JNum 0) then Some ''Blank API''
        else None)"
proof -
  have z: "is_zero v \<longleftrightarrow> v = JNum 0" for v
    by (cases v) auto
  show ?thesis
    by (simp add: validateApiResponse_eq validation_result_def payload_blank_def
        payload_good_def Let_def list_all_iff z)
qed

theorem validate_checks_in_order_witness:
  "fst (validateApiResponse payload_blank idle_state) = Some ''Blank API''
   \<and> fst (validateApiResponse payload_good idle_state) = None
   \<and> fst (validateApiResponse (JObj []) idle_state) = Some ''Missing required data fields''"
  using validate_checks_in_order [of idle_state payload_good] by simp

text \<open>
  C3 (counterexample). The claim has the validator write no shared flag. Its first
  statement is \<^verbatim>\<open>state.error = false\<close>: called in a state whose flag is set, it
  returns a different state.
\<close>

theorem validate_writes_error_flag:
  "snd (validateApiResponse payload_good failed_state) \<noteq> failed_state"
  by (simp add: validateApiResponse_eq failed_state_def idle_state_def)

text \<open>
  C3 (amended). The value \<^verbatim>\<open>validateApiResponse(p)\<close> returns depends on \<open>p\<close> only, not
  on the state it is called in; the call clears the shared flag \<^verbatim>\<open>state.error\<close> and
  changes nothing else.
\<close>

theorem validate_value_pure_flag_reset:
  "fst (validateApiResponse p s) = fst (validateApiResponse p s')
   \<and> fst (validateApiResponse p s) = validation_result p
   \<and> snd (validateApiResponse p s) = s\<lparr>error := False\<rparr>"
  by (simp add: validateApiResponse_eq)

theorem validate_value_pure_flag_reset_witness:
  "fst (validateApiResponse payload_blank idle_state)
     = fst (validateApiResponse payload_blank failed_state)
   \<and> snd (validateApiResponse payload_blank failed_state) = failed_state\<lparr>error := False\<rparr>"
  using validate_value_pure_flag_reset [of payload_blank idle_state failed_state]
    validate_value_pure_flag_reset [of payload_blank failed_state failed_state]
  by simp

section \<open>Properties of the local store\<close>

lemma store_get_delete: "store_get k (store_delete k rows) = None"
  by (induction rows) (auto simp: store_get_def store_delete_def)

text \<open>
  C4. \<^verbatim>\<open>get\<close> returns \<^verbatim>\<open>null\<close> when the store has no row for the key. When it has a
  row that is expired (\<open>now - timestamp \<ge> EXPIRATION_TIME\<close>) or whose payload the
  validator rejects, it deletes the row and returns \<^verbatim>\<open>null\<close>. Otherwise it returns the
  row's payload and leaves the store as it is. So a row with a valid payload written at
  \<open>t\<close> is returned at \<open>t + EXPIRATION_TIME - 1\<close>, and at \<open>t + EXPIRATION_TIME\<close> it is
  deleted and \<^verbatim>\<open>null\<close> is returned.
\<close>

theorem get_contract:
  "(store_get k (dataStore w) = None \<longrightarrow>
      fst (IndexedDBManager_get k s w) = None
      \<and> dataStore (snd (snd (IndexedDBManager_get k s w))) = dataStore w)
   \<and> (\<forall>e. store_get k (dataStore w) = Some e
          \<and> (now w - timestamp e \<ge> EXPIRATION_TIME \<or> validation_result (data e) \<noteq> None) \<longrightarrow>
        fst (IndexedDBManager_get k s w) = None
        \<and> store_get k (dataStore (snd (snd (IndexedDBManager_get k s w)))) = None
        \<and> dataStore (snd (snd (IndexedDBManager_get k s w))) = store_delete k (dataStore w))
   \<and> (\<forall>e. store_get k (dataStore w) = Some e
          \<and> now w - timestamp e < EXPIRATION_TIME \<and> validation_result (data e) = None \<longrightarrow>
        fst (IndexedDBManager_get k s w) = Some (data e)
        \<and> dataStore (snd (snd (IndexedDBManager_get k s w))) = dataStore w)
   \<and> (\<forall>e. store_get k (dataStore w) = Some e \<and> validation_result (data e) = None
          \<and> now w = timestamp e + EXPIRATION_TIME - 1 \<longrightarrow>
        fst (IndexedDBManager_get k s w) = Some (data e)
        \<and> dataStore (snd (snd (IndexedDBManager_get k s w))) = dataStore w)
   \<and> (\<forall>e. store_get k (dataStore w) = Some e \<and> now w = timestamp e + EXPIRATION_TIME \<longrightarrow>
        fst (IndexedDBManager_get k s w) = None
        \<and> store_get k (dataStore (snd (snd (IndexedDBManager_get k s w)))) = None)"
  by (auto simp: IndexedDBManager_get_def IndexedDBManager_deleteEntry_def emit_def
      validateApiResponse_eq store_get_delete Let_def)

theorem get_contract_witness:
  "fst (IndexedDBManager_get ''neko'' idle_state fresh_world) = None
   \<and> fst (IndexedDBManager_get ''neko'' idle_state (cached_world (1000 + EXPIRATION_TIME - 1)))
       = Some stored_good
   \<and> fst (IndexedDBManager_get ''neko'' idle_state (cached_world (1000 + EXPIRATION_TIME))) = None
   \<and> store_get ''neko'' (dataStore (snd (snd
         (IndexedDBManager_get ''neko'' idle_state (cached_world (1000 + EXPIRATION_TIME)))))) = None"
proof -
  have valid: "validation_result stored_good = None"
    by (simp add: validation_result_def stored_good_def)
  have none: "store_get ''neko'' (dataStore fresh_world) = None"
    by (simp add: store_get_def fresh_world_def)
  have row: "store_get ''neko'' (dataStore (cached_world t))
      = Some \<lparr>keyword = ''neko'', data = stored_good, timestamp = 1000\<rparr>" for t
    by (simp add: store_get_def cached_world_def)
  have clock: "now (cached_world t) = t" for t
    by (simp add: cached_world_def)
  show ?thesis
    using get_contract [of "''neko''" fresh_world idle_state]
      get_contract [of "''neko''" "cached_world (1000 + EXPIRATION_TIME - 1)" idle_state]
      get_contract [of "''neko''" "cached_world (1000 + EXPIRATION_TIME)" idle_state]
    by (simp add: valid none row clock store_get_delete)
qed

text \<open>
  C5. \<^verbatim>\<open>save\<close> with a payload the validator rejects resolves without an error and
  leaves the store (and the rest of the surroundings) as it was; the validator it ran
  has cleared \<^verbatim>\<open>state.error\<close>.
\<close>

theorem save_invalid_noop:
  "validation_result d \<noteq> None \<Longrightarrow>
   IndexedDBManager_save k d s w = (Inr (), s\<lparr>error := False\<rparr>, w)"
  by (simp add: IndexedDBManager_save_def validateApiResponse_eq)

theorem save_invalid_noop_witness:
  "validation_result payload_blank \<noteq> None
   \<and> IndexedDBManager_save ''neko'' payload_blank failed_state fresh_world
       = (Inr (), failed_state\<lparr>error := False\<rparr>, fresh_world)"
proof -
  have h: "validation_result payload_blank \<noteq> None"
    by (simp add: validation_result_def payload_blank_def)
  show ?thesis using h save_invalid_noop [OF h] by simp
qed



subsection \<open>The rows of the store\<close>

lemma map_throw_total:
  "\<forall>x \<in> set xs. f x = Inr (g x) \<Longrightarrow> map_throw f xs = Inr (map g xs)"
  by (induction xs) auto

lemma map_throw_Inr_length: "map_throw f xs = Inr ys \<Longrightarrow> length ys = length xs"
  by (induction xs arbitrary: ys) (auto split: sum.splits)

lemma map_throw_Inr_Cons:
  "map_throw f (x # xs) = Inr ys \<Longrightarrow> \<exists>y ys'. ys = y # ys' \<and> f x = Inr y"
  by (auto split: sum.splits)

lemma slim_example_projection: "\<not> nullish ex \<Longrightarrow> slim_example ex = Inr (slim_projection ex)"
  by (simp add: slim_example_def slim_projection_def)

lemma store_get_put: "store_get (keyword r) (store_put r rows) = Some r"
  by (induction rows) (auto simp: store_get_def)

lemma set_store_put: "set (store_put r rows) \<subseteq> insert r (set rows)"
  by (induction rows) auto

lemma set_store_delete: "set (store_delete k rows) \<subseteq> set rows"
  by (auto simp: store_delete_def)

lemma set_fold_store_delete: "set (fold store_delete ks rows) \<subseteq> set rows"
proof (induction ks arbitrary: rows)
  case Nil
  show ?case by simp
next
  case (Cons k ks)
  have "set (fold store_delete ks (store_delete k rows)) \<subseteq> set (store_delete k rows)"
    by (rule Cons.IH)
  also have "\<dots> \<subseteq> set rows" by (rule set_store_delete)
  finally show ?case by simp
qed

text \<open>The shape of a slimmed payload whose source passed the validator.\<close>

lemma slim_data_first:
  assumes v: "validation_result p = None" and sl: "slim_data p = Inr (Some sd)"
  shows "\<exists>i0 rest si0 srest. field p ''data'' = JArr (i0 # rest)
           \<and> field sd ''data'' = JArr (si0 # srest) \<and> slim_item i0 = Inr si0 \<and> \<not> nullish i0
           \<and> truthy (field i0 ''category_count'')
           \<and> \<not> list_all is_zero (object_values (field i0 ''category_count''))"
proof -
  from v have t: "truthy p" "truthy (field p ''data'')" "truthy (index0 (field p ''data''))"
    and cc: "truthy (field (index0 (field p ''data'')) ''category_count'')"
      "\<not> list_all is_zero (object_values (field (index0 (field p ''data'')) ''category_count''))"
    by (auto simp: validation_result_def Let_def split: if_splits)
  from sl t obtain items where items: "field p ''data'' = JArr items"
    by (cases "field p ''data''") (auto simp: slim_data_def)
  with t obtain i0 rest where ir: "items = i0 # rest" and "truthy i0"
    by (cases items) auto
  then have nn: "\<not> nullish i0" by (cases i0) auto
  from sl t items ir obtain slimItems where
    m: "map_throw slim_item (i0 # rest) = Inr slimItems" and sd: "sd = JObj [(''data'', JArr slimItems)]"
    by (auto simp: slim_data_def split: sum.splits)
  from map_throw_Inr_Cons [OF m] obtain si0 srest where
    "slimItems = si0 # srest" "slim_item i0 = Inr si0" by blast
  with items ir sd nn cc show ?thesis by auto
qed

lemma slim_item_examples:
  assumes "slim_item i0 = Inr si0"
  shows "(\<forall>exs. field i0 ''examples'' = JArr exs \<longrightarrow>
            (\<exists>sl. field si0 ''examples'' = JArr sl \<and> length sl = length exs))
         \<and> (\<not> isArray (field i0 ''examples'') \<longrightarrow> field si0 ''examples'' = JUndefined)"
  using assms
  by (auto simp: slim_item_def Let_def split: if_splits sum.splits dest: map_throw_Inr_length)

lemma slim_item_counts:
  assumes "slim_item i0 = Inr si0" "truthy (field i0 ''category_count'')"
  shows "field si0 ''category_count'' = field i0 ''category_count''"
  using assms
  by (auto simp: slim_item_def Let_def split: if_splits sum.splits)


lemma save_success:
  assumes v: "validation_result p = None" and sl: "slim_data p = Inr (Some sd)"
  shows "IndexedDBManager_save k p s w =
     (Inr (), s\<lparr>error := False\<rparr>,
      emit (map DbDelete (map keyword (entriesToDelete (dataStore w))) @ [DbPut k])
        (emit [DbGetAll] w
          \<lparr>dataStore := store_put \<lparr>keyword = k, data = sd, timestamp = now w\<rparr>
             (fold store_delete (map keyword (entriesToDelete (dataStore w))) (dataStore w))\<rparr>))"
  using v sl
  by (simp add: IndexedDBManager_save_def validateApiResponse_eq IndexedDBManager_getAll_def
      Let_def emit_def)

lemma save_rows:
  assumes "e \<in> set (dataStore (snd (snd (IndexedDBManager_save k d s w))))"
  shows "e \<in> set (dataStore w) \<or> (validation_result d = None \<and> slim_data d = Inr (Some (data e)))"
proof (cases "validation_result d")
  case (Some reason)
  with assms show ?thesis
    by (simp add: IndexedDBManager_save_def validateApiResponse_eq)
next
  case None
  show ?thesis
  proof (cases "slim_data d")
    case (Inl x)
    with None assms show ?thesis
      by (simp add: IndexedDBManager_save_def validateApiResponse_eq)
  next
    case (Inr slimmed)
    show ?thesis
    proof (cases slimmed)
      case None2: None
      with None Inr assms show ?thesis
        by (simp add: IndexedDBManager_save_def validateApiResponse_eq)
    next
      case (Some sd)
      with Inr have sl: "slim_data d = Inr (Some sd)" by simp
      from assms have "e \<in> set (store_put \<lparr>keyword = k, data = sd, timestamp = now w\<rparr>
             (fold store_delete (map keyword (entriesToDelete (dataStore w))) (dataStore w)))"
        by (simp add: save_success [OF None sl] emit_def)
      then have "e = \<lparr>keyword = k, data = sd, timestamp = now w\<rparr>
          \<or> e \<in> set (fold store_delete (map keyword (entriesToDelete (dataStore w))) (dataStore w))"
        using set_store_put by fastforce
      then show ?thesis
        using set_fold_store_delete None sl by fastforce
    qed
  qed
qed

lemma get_rows:
  "set (dataStore (snd (snd (IndexedDBManager_get k s w)))) \<subseteq> set (dataStore w)"
  using set_store_delete [of k "dataStore w"]
  by (auto simp: IndexedDBManager_get_def IndexedDBManager_deleteEntry_def emit_def
      validateApiResponse_eq Let_def split: option.splits)

lemma reachable_sources:
  "reachable rows \<Longrightarrow>
   \<forall>e \<in> set rows. \<exists>p. validation_result p = None \<and> slim_data p = Inr (Some (data e))"
proof (induction rule: reachable.induct)
  case reachable_init
  show ?case by simp
next
  case (reachable_save w k d s)
  then show ?case using save_rows by blast
next
  case (reachable_get w k s)
  then show ?case using get_rows by blast
next
  case (reachable_deleteEntry w k)
  then show ?case
    using set_store_delete [of k "dataStore w"]
    by (auto simp: IndexedDBManager_deleteEntry_def emit_def)
next
  case (reachable_delete w)
  show ?case by (simp add: IndexedDBManager_delete_def)
qed

text \<open>
  C7 (amended). In every reachable state of the store, every row holds the slimmed form
  of a payload that passed the validator. Its first result is there; that result has a
  list of examples as long as the list of the source's first result when the source had
  an array there (the list may be empty), and no examples at all when the source's
  examples were not an array.
\<close>

theorem persisted_rows_from_valid_sources:
  assumes "reachable rows" and "e \<in> set rows"
  shows "\<exists>p. validation_result p = None \<and> slim_data p = Inr (Some (data e))
           \<and> truthy (index0 (field (data e) ''data''))
           \<and> (\<forall>exs. field (index0 (field p ''data'')) ''examples'' = JArr exs \<longrightarrow>
                (\<exists>sl. field (index0 (field (data e) ''data'')) ''examples'' = JArr sl
                      \<and> length sl = length exs))
           \<and> (\<not> isArray (field (index0 (field p ''data'')) ''examples'') \<longrightarrow>
                field (index0 (field (data e) ''data'')) ''examples'' = JUndefined)"
proof -
  from reachable_sources [OF assms(1)] assms(2) obtain p where
    v: "validation_result p = None" and sl: "slim_data p = Inr (Some (data e))" by blast
  from slim_data_first [OF v sl] obtain i0 rest si0 srest where
    f: "field p ''data'' = JArr (i0 # rest)" "field (data e) ''data'' = JArr (si0 # srest)"
    and si: "slim_item i0 = Inr si0" and nn: "\<not> nullish i0" by blast
  from si nn have "truthy si0"
    by (auto simp: slim_item_def Let_def split: if_splits sum.splits)
  with v sl f slim_item_examples [OF si] show ?thesis
    by (intro exI [of _ p]) simp
qed

text \<open>
  C7 (counterexample). The claim has every persisted payload hold at least one example
  in its first result. The validator tests \<^verbatim>\<open>!jsonData.data[0].examples\<close>, which an
  empty array passes: the store reached by saving such a payload holds a row whose
  first result has no example.
\<close>

theorem persisted_without_examples:
  "reachable [\<lparr>keyword = ''neko'', data = stored_no_examples, timestamp = 1000\<rparr>]
   \<and> field (index0 (field stored_no_examples ''data'')) ''examples'' = JArr []"
proof -
  have "dataStore (snd (snd (IndexedDBManager_save ''neko'' payload_no_examples idle_state fresh_world)))
      = [\<lparr>keyword = ''neko'', data = stored_no_examples, timestamp = 1000\<rparr>]"
    by (simp add: IndexedDBManager_save_def validateApiResponse_eq validation_result_def
        slim_data_def slim_item_def slim_example_def IndexedDBManager_getAll_def
        entriesToDelete_def MAX_ENTRIES_def emit_def fresh_world_def payload_no_examples_def
        stored_no_examples_def Let_def)
  moreover have "reachable (dataStore fresh_world)"
    by (simp add: fresh_world_def reachable_init)
  ultimately show ?thesis
    using reachable_save [of fresh_world "''neko''" payload_no_examples idle_state]
    by (simp add: stored_no_examples_def)
qed


theorem persisted_rows_from_valid_sources_witness:
  "reachable [\<lparr>keyword = ''neko'', data = stored_good, timestamp = 1000\<rparr>]
   \<and> (\<exists>p. validation_result p = None \<and> slim_data p = Inr (Some stored_good))"
proof -
  have "dataStore (snd (snd (IndexedDBManager_save ''neko'' payload_good idle_state fresh_world)))
      = [\<lparr>keyword = ''neko'', data = stored_good, timestamp = 1000\<rparr>]"
    by (simp add: IndexedDBManager_save_def validateApiResponse_eq validation_result_def
        slim_data_def slim_item_def slim_example_def IndexedDBManager_getAll_def
        entriesToDelete_def MAX_ENTRIES_def emit_def fresh_world_def payload_good_def
        stored_good_def Let_def)
  moreover have "reachable (dataStore fresh_world)"
    by (simp add: fresh_world_def reachable_init)
  ultimately have r: "reachable [\<lparr>keyword = ''neko'', data = stored_good, timestamp = 1000\<rparr>]"
    using reachable_save [of fresh_world "''neko''" payload_good idle_state] by simp
  have m: "\<lparr>keyword = ''neko'', data = stored_good, timestamp = 1000\<rparr>
      \<in> set [\<lparr>keyword = ''neko'', data = stored_good, timestamp = 1000\<rparr>]"
    by simp
  from persisted_rows_from_valid_sources [OF r m] r show ?thesis
    by auto
qed

subsection \<open>Writing, then reading\<close>

lemma slim_item_total:
  assumes "\<not> nullish item" "list_all (\<lambda>ex. \<not> nullish ex) (elements (field item ''examples''))"
  shows "slim_item item = Inr (JObj
      ((if truthy (field item ''category_count'')
        then [(''category_count'', field item ''category_count'')] else [])
       @ (if isArray (field item ''examples'')
          then [(''examples'', JArr (map slim_projection (elements (field item ''examples''))))]
          else [])))"
proof -
  have "map_throw slim_example (elements (field item ''examples''))
      = Inr (map slim_projection (elements (field item ''examples'')))"
    using assms(2) by (intro map_throw_total) (simp add: list_all_iff slim_example_projection)
  with assms(1) show ?thesis
    by (cases "field item ''examples''") (simp_all add: slim_item_def)
qed

text \<open>
  C6 (amended). For every payload that passes the validator and is well shaped (the
  results are an array without \<^verbatim>\<open>null\<close> entries, no list of examples has a
  \<^verbatim>\<open>null\<close> entry, the examples of the first result are an array) and every key,
  \<^verbatim>\<open>save\<close> followed at once by \<^verbatim>\<open>get\<close> resolves and returns a payload; the
  examples of its first result are the slimmed projections of the examples of the
  source's first result, each keeping exactly the five fields.
\<close>

theorem put_then_get_roundtrip:
  assumes v: "validation_result p = None" and ws: "well_shaped p"
  shows "\<exists>payload. fst (put_then_get k p s w) = Inr ()
           \<and> fst (snd (put_then_get k p s w)) = Some payload
           \<and> field (index0 (field payload ''data'')) ''examples''
               = JArr (map slim_projection
                    (elements (field (index0 (field p ''data'')) ''examples'')))"
proof -
  define g where "g = (\<lambda>item. JObj
      ((if truthy (field item ''category_count'')
        then [(''category_count'', field item ''category_count'')] else [])
       @ (if isArray (field item ''examples'')
          then [(''examples'', JArr (map slim_projection (elements (field item ''examples''))))]
          else [])))"
  from ws obtain items where items: "field p ''data'' = JArr items"
    and ok: "\<forall>item \<in> set items. \<not> nullish item
               \<and> list_all (\<lambda>ex. \<not> nullish ex) (elements (field item ''examples''))"
    and arr: "isArray (field (index0 (JArr items)) ''examples'')"
    by (cases "field p ''data''") (auto simp: well_shaped_def list_all_iff)
  from v have t: "truthy p" "truthy (field p ''data'')" "truthy (index0 (field p ''data''))"
    and cc: "truthy (field (index0 (field p ''data'')) ''category_count'')"
      "\<not> list_all is_zero (object_values (field (index0 (field p ''data'')) ''category_count''))"
    by (auto simp: validation_result_def Let_def split: if_splits)
  from t items obtain i0 rest where ir: "items = i0 # rest"
    by (cases items) auto
  have "map_throw slim_item items = Inr (map g items)"
    using ok by (intro map_throw_total) (simp add: slim_item_total g_def)
  with t items have sl: "slim_data p = Inr (Some (JObj [(''data'', JArr (map g items))]))"
    by (simp add: slim_data_def)
  from arr ir obtain exs where exs: "field i0 ''examples'' = JArr exs"
    by (cases "field i0 ''examples''") auto
  from cc items ir have cc0: "truthy (field i0 ''category_count'')"
    "\<not> list_all is_zero (object_values (field i0 ''category_count''))"
    by simp_all
  have gi: "g i0 = JObj [(''category_count'', field i0 ''category_count''),
      (''examples'', JArr (map slim_projection exs))]"
    using cc0 exs by (simp add: g_def)
  have valid: "validation_result (JObj [(''data'', JArr (map g items))]) = None"
    using cc0 by (simp add: validation_result_def ir gi)
  have "put_then_get k p s w =
      (Inr (), Some (JObj [(''data'', JArr (map g items))]),
       snd (snd (put_then_get k p s w)))"
    using store_get_put [of "\<lparr>keyword = k, data = JObj [(''data'', JArr (map g items))],
        timestamp = now w\<rparr>"]
    by (simp add: put_then_get_def save_success [OF v sl] IndexedDBManager_get_def emit_def
        validateApiResponse_eq valid EXPIRATION_TIME_def Let_def)
  then have "fst (put_then_get k p s w) = Inr ()"
    "fst (snd (put_then_get k p s w)) = Some (JObj [(''data'', JArr (map g items))])"
    by (metis fst_conv, metis fst_conv snd_conv)
  moreover have "field (index0 (field (JObj [(''data'', JArr (map g items))]) ''data'')) ''examples''
      = JArr (map slim_projection (elements (field (index0 (field p ''data'')) ''examples'')))"
    by (simp add: ir gi items exs)
  ultimately show ?thesis by blast
qed

text \<open>
  C6 (counterexample). A payload whose first result has a string for \<^verbatim>\<open>examples\<close>
  passes the validator; \<^verbatim>\<open>save\<close> stores it without examples (it slims arrays only),
  and the \<^verbatim>\<open>get\<close> that follows finds the stored payload invalid and returns
  \<^verbatim>\<open>null\<close>.
\<close>

theorem put_then_get_loses_entry:
  "validation_result payload_text_examples = None
   \<and> fst (put_then_get ''neko'' payload_text_examples idle_state fresh_world) = Inr ()
   \<and> fst (snd (put_then_get ''neko'' payload_text_examples idle_state fresh_world)) = None"
  by (simp add: put_then_get_def IndexedDBManager_save_def validateApiResponse_eq
      validation_result_def slim_data_def slim_item_def slim_example_def
      IndexedDBManager_getAll_def IndexedDBManager_get_def IndexedDBManager_deleteEntry_def
      store_get_def store_delete_def EXPIRATION_TIME_def
      entriesToDelete_def MAX_ENTRIES_def emit_def fresh_world_def payload_text_examples_def
      Let_def)

theorem put_then_get_roundtrip_witness:
  "validation_result payload_good = None \<and> well_shaped payload_good
   \<and> fst (snd (put_then_get ''neko'' payload_good idle_state fresh_world)) = Some stored_good"
proof -
  have v: "validation_result payload_good = None"
    by (simp add: validation_result_def payload_good_def)
  have ws: "well_shaped payload_good"
    by (simp add: well_shaped_def payload_good_def)
  have "fst (snd (put_then_get ''neko'' payload_good idle_state fresh_world)) = Some stored_good"
    by (simp add: put_then_get_def IndexedDBManager_save_def validateApiResponse_eq
      validation_result_def slim_data_def slim_item_def slim_example_def
      IndexedDBManager_getAll_def IndexedDBManager_get_def IndexedDBManager_deleteEntry_def
      store_get_def store_delete_def EXPIRATION_TIME_def
      entriesToDelete_def MAX_ENTRIES_def emit_def fresh_world_def payload_good_def
      stored_good_def Let_def)
  with v ws put_then_get_roundtrip [OF v ws, of "''neko''" idle_state fresh_world]
  show ?thesis by simp
qed


section \<open>Properties of the fetch pipeline\<close>

subsection \<open>One attempt\<close>

text \<open>
  With no row for the key, an attempt whose response carries an invalid payload leads to
  the next attempt after the pause, an attempt whose fetch fails ends the call, and so
  does the fifth attempt with an invalid payload.
\<close>

lemma fetchData_retry:
  assumes miss: "store_get k (dataStore w) = None"
    and bad: "rejected_reason (api url (requests w)) = Some reason"
    and more: "attempt + 1 < maxRetries"
  shows "fetchData api k url attempt s w
       = fetchData api k url (attempt + 1) (cleared 1 s) (after_rounds 1 k url w)"
proof -
  from bad obtain j where j: "fetch_json (api url (requests w)) = Inr j"
    "validation_result j = Some reason"
    by (auto simp: rejected_reason_def split: sum.splits)
  show ?thesis
    using more
    apply (subst fetchData.simps)
    apply (simp add: IndexedDBManager_open_def IndexedDBManager_get_def emit_def miss
        cache_hit_def do_fetch_def j validateApiResponse_eq sleep_def
        cleared_def after_rounds_def retry_round_def Let_def)
    done
qed

lemma fetchData_rounds:
  assumes "store_get k (dataStore w) = None"
    and "\<forall>i<n. rejected_reason (api url (requests w + i)) \<noteq> None"
    and "attempt + n < maxRetries"
  shows "fetchData api k url attempt s w
       = fetchData api k url (attempt + n) (cleared n s) (after_rounds n k url w)"
  using assms
proof (induction n arbitrary: attempt s w)
  case 0
  show ?case by (simp add: cleared_def after_rounds_def)
next
  case (Suc n)
  from Suc.prems(2) obtain reason where
    r: "rejected_reason (api url (requests w)) = Some reason"
    by (metis add.right_neutral not_None_eq zero_less_Suc)
  let ?w = "after_rounds 1 k url w"
  have step: "fetchData api k url attempt s w
      = fetchData api k url (attempt + 1) (cleared 1 s) ?w"
    using Suc.prems(1) r Suc.prems(3) by (intro fetchData_retry) auto
  have miss: "store_get k (dataStore ?w) = None"
    using Suc.prems(1) by (simp add: after_rounds_def)
  have bad: "\<forall>i<n. rejected_reason (api url (requests ?w + i)) \<noteq> None"
    using Suc.prems(2) by (auto simp: after_rounds_def)
  have "fetchData api k url (attempt + 1) (cleared 1 s) ?w
      = fetchData api k url (attempt + 1 + n) (cleared n (cleared 1 s)) (after_rounds n k url ?w)"
    using miss bad Suc.prems(3) by (intro Suc.IH) auto
  moreover have "cleared n (cleared 1 s) = cleared (Suc n) s"
    by (simp add: cleared_def)
  moreover have "after_rounds n k url ?w = after_rounds (Suc n) k url w"
    by (simp add: after_rounds_def algebra_simps)
  ultimately show ?case using step by simp
qed

lemma fetchData_failure:
  assumes miss: "store_get k (dataStore w) = None"
    and fail: "fetch_json (api url (requests w)) = Inl e"
  shows "fetchData api k url attempt s w
       = (Inl (Exn ''Error'' (''Fetch error: '' @ message e)), s\<lparr>error := True\<rparr>,
          w\<lparr>requests := requests w + 1,
            trace := trace w @ [DbOpen, DbGet k, Fetch url, Render]\<rparr>)"
  apply (subst fetchData.simps)
  apply (simp add: IndexedDBManager_open_def IndexedDBManager_get_def emit_def miss
      cache_hit_def do_fetch_def fail caught_def Let_def)
  done


lemma rejected_blank: "rejected_reason (Response 200 (Body payload_blank)) = Some ''Blank API''"
  by (simp add: rejected_reason_def fetch_json_def ok_def validation_result_def payload_blank_def)

lemma not_blacklisted_fresh: "\<not> isBlacklisted (prefs fresh_world (vocab idle_state))"
  by (simp add: isBlacklisted_def fresh_world_def)

lemma miss_fresh: "store_get k (dataStore fresh_world) = None"
  by (simp add: store_get_def fresh_world_def)

text \<open>
  The same for any miss of the cache lookup (no row, a row that \<^verbatim>\<open>get\<close> deletes, or a
  payload that fails the test on \<^verbatim>\<open>cachedData\<close>): a miss stays a miss in the later
  attempts.
\<close>

lemma get_looked_up:
  "fst (IndexedDBManager_get k s w) = looked_up k (dataStore w) (now w)"
  by (auto simp: IndexedDBManager_get_def looked_up_def emit_def validateApiResponse_eq Let_def
      split: option.splits)

lemma get_frame:
  "requests (snd (snd (IndexedDBManager_get k s w))) = requests w"
  "now (snd (snd (IndexedDBManager_get k s w))) = now w"
  "dataStore (snd (snd (IndexedDBManager_get k s w))) = dataStore w
   \<or> dataStore (snd (snd (IndexedDBManager_get k s w))) = store_delete k (dataStore w)"
  "looked_up k (dataStore w) (now w) \<noteq> None \<longrightarrow>
     dataStore (snd (snd (IndexedDBManager_get k s w))) = dataStore w"
  by (auto simp: IndexedDBManager_get_def IndexedDBManager_deleteEntry_def emit_def
      validateApiResponse_eq looked_up_def Let_def split: option.splits)

lemma miss_persists:
  assumes "\<not> cache_hit (looked_up k rows t)" and "t \<le> t'"
  shows "\<not> cache_hit (looked_up k rows t')"
    and "\<not> cache_hit (looked_up k (store_delete k rows) t')"
  using assms
  by (auto simp: looked_up_def cache_hit_def store_get_delete split: option.splits if_splits)

lemma fetchData_step_failure:
  assumes miss: "\<not> cache_hit (looked_up k (dataStore w) (now w))"
    and fail: "fetch_json (api url (requests w)) = Inl e"
  shows "fst (fetchData api k url attempt s w) = Inl (Exn ''Error'' (''Fetch error: '' @ message e))
    \<and> error (fst (snd (fetchData api k url attempt s w)))
    \<and> requests (snd (snd (fetchData api k url attempt s w))) = requests w + 1"
proof -
  let ?G = "IndexedDBManager_get k s (IndexedDBManager_open w)"
  have m: "\<not> cache_hit (fst ?G)"
    using miss by (simp add: get_looked_up IndexedDBManager_open_def emit_def)
  have r: "requests (snd (snd ?G)) = requests w"
    by (simp add: get_frame IndexedDBManager_open_def emit_def)
  show ?thesis
    apply (subst (1 2 3) fetchData.simps)
    using m r fail
    apply (simp add: case_prod_unfold Let_def do_fetch_def caught_def emit_def)
    done
qed

lemma fetchData_step_retry:
  assumes miss: "\<not> cache_hit (looked_up k (dataStore w) (now w))"
    and bad: "rejected_reason (api url (requests w)) = Some reason"
    and more: "attempt + 1 < maxRetries"
  shows "\<exists>s' w'. fetchData api k url attempt s w = fetchData api k url (attempt + 1) s' w'
           \<and> requests w' = requests w + 1
           \<and> \<not> cache_hit (looked_up k (dataStore w') (now w'))"
proof -
  let ?G = "IndexedDBManager_get k s (IndexedDBManager_open w)"
  let ?w' = "sleep 2000 (emit [Fetch url] ((snd (snd ?G))\<lparr>requests := requests (snd (snd ?G)) + 1\<rparr>))"
  let ?s' = "(fst (snd ?G))\<lparr>error := False\<rparr>"
  from bad obtain j where j: "fetch_json (api url (requests w)) = Inr j"
    "validation_result j = Some reason"
    by (auto simp: rejected_reason_def split: sum.splits)
  have m: "\<not> cache_hit (fst ?G)"
    using miss by (simp add: get_looked_up IndexedDBManager_open_def emit_def)
  have r: "requests (snd (snd ?G)) = requests w"
    by (simp add: get_frame IndexedDBManager_open_def emit_def)
  have step: "fetchData api k url attempt s w = fetchData api k url (attempt + 1) ?s' ?w'"
    apply (subst fetchData.simps)
    using m r j more
    apply (simp add: case_prod_unfold Let_def do_fetch_def validateApiResponse_eq)
    done
  have req: "requests ?w' = requests w + 1"
    using r by (simp add: sleep_def emit_def)
  have t: "now ?w' = now w + 2000"
    by (simp add: sleep_def emit_def get_frame IndexedDBManager_open_def)
  have "dataStore ?w' = dataStore w \<or> dataStore ?w' = store_delete k (dataStore w)"
    using get_frame(3) [of k s "IndexedDBManager_open w"]
    by (simp add: sleep_def emit_def IndexedDBManager_open_def)
  then have "\<not> cache_hit (looked_up k (dataStore ?w') (now ?w'))"
    using miss_persists [OF miss, of "now w + 2000"] t by auto
  with step req show ?thesis by blast
qed

lemma fetchData_failure_after_retries:
  assumes "\<not> cache_hit (looked_up k (dataStore w) (now w))"
    and "\<forall>i<n. rejected_reason (api url (requests w + i)) \<noteq> None"
    and "attempt + n < maxRetries"
    and "fetch_json (api url (requests w + n)) = Inl e"
  shows "fst (fetchData api k url attempt s w) = Inl (Exn ''Error'' (''Fetch error: '' @ message e))
    \<and> error (fst (snd (fetchData api k url attempt s w)))
    \<and> requests (snd (snd (fetchData api k url attempt s w))) = requests w + n + 1"
  using assms
proof (induction n arbitrary: attempt s w)
  case 0
  then show ?case using fetchData_step_failure [of k w api url e attempt s] by simp
next
  case (Suc n)
  from Suc.prems(2) obtain reason where
    r: "rejected_reason (api url (requests w)) = Some reason"
    by (metis add.right_neutral not_None_eq zero_less_Suc)
  from fetchData_step_retry [where api = api and url = url and k = k and w = w
      and attempt = attempt and s = s, OF Suc.prems(1) r] Suc.prems(3)
  obtain s' w' where step: "fetchData api k url attempt s w = fetchData api k url (attempt + 1) s' w'"
    and req: "requests w' = requests w + 1"
    and miss: "\<not> cache_hit (looked_up k (dataStore w') (now w'))"
    by auto
  have bad: "\<forall>i<n. rejected_reason (api url (requests w' + i)) \<noteq> None"
    using Suc.prems(2) req by auto
  have fail: "fetch_json (api url (requests w' + n)) = Inl e"
    using Suc.prems(4) req by simp
  have "attempt + 1 + n < maxRetries" using Suc.prems(3) by simp
  from Suc.IH [OF miss bad this fail, of s'] step req show ?case by simp
qed

subsection \<open>The URL\<close>

text \<open>For a key without a lone surrogate the URL is built and the call goes on.\<close>

lemma build_url_ok: "\<not> lone_surrogate k \<Longrightarrow> build_url k = Inr (look_up_url k)"
  by (simp add: build_url_def encodeURIComponent_def look_up_url_def)

lemma build_url_throws:
  "lone_surrogate k \<Longrightarrow> build_url k = Inl (Exn ''URIError'' ''URI malformed'')"
  by (simp add: build_url_def encodeURIComponent_def)

text \<open>The marks of the exact search neither hold nor complete a lone surrogate.\<close>

lemma lone_surrogate_Cons:
  "lone_surrogate (a # xs) =
     (((of_char a :: nat) = 0xED \<and> xs \<noteq> []
        \<and> (0xA0::nat) \<le> of_char (hd xs) \<and> (of_char (hd xs) :: nat) \<le> 0xBF)
      \<or> lone_surrogate xs)"
  by (cases xs) auto

lemma lone_surrogate_open: "lone_surrogate (open_bracket @ t) = lone_surrogate t"
  by (simp add: open_bracket_def lone_surrogate_Cons)

lemma lone_surrogate_close: "lone_surrogate (t @ close_bracket) = lone_surrogate t"
proof (induction t)
  case Nil
  show ?case by (simp add: close_bracket_def)
next
  case (Cons a t)
  have "hd (t @ close_bracket) = (if t = [] then CHR 0xE2 else hd t)"
    by (simp add: close_bracket_def hd_append)
  with Cons show ?case
    by (simp add: lone_surrogate_Cons close_bracket_def)
qed

lemma lone_surrogate_search_key: "lone_surrogate (search_key T exact) = lone_surrogate T"
  by (simp add: search_key_def lone_surrogate_open lone_surrogate_close)

lemma getImmersionKitData_built:
  "\<not> lone_surrogate T \<Longrightarrow>
   getImmersionKitData api T exact s w =
     (if isBlacklisted (prefs w (vocab s)) then (Inr (), s, emit [PrefsGet (vocab s)] w)
      else fetchData api (search_key T exact) (look_up_url (search_key T exact)) 0 s
             (emit [PrefsGet (vocab s)] w))"
  by (simp add: getImmersionKitData_def build_url_ok lone_surrogate_search_key
      chromeStorage_get_def Let_def)

lemma well_formed_neko: "\<not> lone_surrogate ''neko''"
  by simp

lemma lone_term_lone: "lone_surrogate lone_term"
  by (simp add: lone_term_def)

subsection \<open>The retry bound\<close>



subsection \<open>Failures of the fetch\<close>

text \<open>
  What \<open>fetch_json\<close> throws: the rejection of \<^verbatim>\<open>fetch\<close>, a status outside 200 to 299,
  or a body that does not parse.
\<close>

lemma fetch_json_failures:
  "(\<exists>e. fetch_json r = Inl e) \<longleftrightarrow>
     (case r of
        NetworkError m \<Rightarrow> True
      | Response status b \<Rightarrow> \<not> ok status \<or> (case b of BadJson m \<Rightarrow> True | Body j \<Rightarrow> False))"
  by (auto simp: fetch_json_def split: response.splits body.splits)

text \<open>
  C9. For a term of well-formed text (the URL is built): when the fetch of an attempt
  fails (network failure, status that is not 2xx, body
  that does not parse), on the first attempt (\<open>n = 0\<close>) or after \<open>n\<close> attempts that
  were retried for invalid payloads, the call issues no further request: it is rejected
  at once with the error \<^verbatim>\<open>Fetch error:\<close> followed by the message of what was thrown,
  after \<open>n + 1\<close> requests in all, with \<^verbatim>\<open>state.error\<close> set. This holds whenever the
  cache lookup misses (otherwise nothing is fetched); with no row for the key, the second
  conjunct gives the whole outcome, event by event.
\<close>

theorem fetch_failure_not_retried:
  assumes wf: "\<not> lone_surrogate T"
    and nb: "\<not> isBlacklisted (prefs w (vocab s))"
    and n: "n < maxRetries"
    and bad: "\<forall>i<n. rejected_reason
                (api (look_up_url (search_key T exact)) (requests w + i)) \<noteq> None"
    and fail: "fetch_json (api (look_up_url (search_key T exact)) (requests w + n)) = Inl e"
  shows "(\<not> cache_hit (fst (IndexedDBManager_get (search_key T exact) s w)) \<longrightarrow>
            fst (getImmersionKitData api T exact s w)
              = Inl (Exn ''Error'' (''Fetch error: '' @ message e))
            \<and> error (fst (snd (getImmersionKitData api T exact s w)))
            \<and> requests (snd (snd (getImmersionKitData api T exact s w))) = requests w + n + 1)
       \<and> (store_get (search_key T exact) (dataStore w) = None \<longrightarrow>
            getImmersionKitData api T exact s w
              = (Inl (Exn ''Error'' (''Fetch error: '' @ message e)),
                 s\<lparr>error := True\<rparr>,
                 w\<lparr>requests := requests w + n + 1, now := now w + 2000 * int n,
                   trace := trace w @ [PrefsGet (vocab s)]
                     @ concat (replicate n
                         (retry_round (search_key T exact) (look_up_url (search_key T exact))))
                     @ [DbOpen, DbGet (search_key T exact),
                        Fetch (look_up_url (search_key T exact)), Render]\<rparr>))"
proof (intro conjI impI)
  let ?k = "search_key T exact" and ?url = "look_up_url (search_key T exact)"
  let ?w1 = "emit [PrefsGet (vocab s)] w"
  have unfold: "getImmersionKitData api T exact s w = fetchData api ?k ?url 0 s ?w1"
    using nb by (simp add: getImmersionKitData_built [OF wf])
  have bad1: "\<forall>i<n. rejected_reason (api ?url (requests ?w1 + i)) \<noteq> None"
    using bad by (simp add: emit_def)
  have fail1: "fetch_json (api ?url (requests ?w1 + n)) = Inl e"
    using fail by (simp add: emit_def)
  {
    assume "\<not> cache_hit (fst (IndexedDBManager_get ?k s w))"
    then have miss: "\<not> cache_hit (looked_up ?k (dataStore ?w1) (now ?w1))"
      by (simp add: get_looked_up emit_def)
    have general: "fst (fetchData api ?k ?url 0 s ?w1)
          = Inl (Exn ''Error'' (''Fetch error: '' @ message e))
        \<and> error (fst (snd (fetchData api ?k ?url 0 s ?w1)))
        \<and> requests (snd (snd (fetchData api ?k ?url 0 s ?w1))) = requests ?w1 + n + 1"
      using miss bad1 n fail1 by (intro fetchData_failure_after_retries) simp_all
    from general show "fst (getImmersionKitData api T exact s w)
        = Inl (Exn ''Error'' (''Fetch error: '' @ message e))"
      by (simp add: unfold)
    from general show "error (fst (snd (getImmersionKitData api T exact s w)))"
      by (simp add: unfold)
    from general show "requests (snd (snd (getImmersionKitData api T exact s w)))
        = requests w + n + 1"
      by (simp add: unfold emit_def)
  }
  {
    assume miss: "store_get ?k (dataStore w) = None"
    let ?wn = "after_rounds n ?k ?url ?w1"
    have miss1: "store_get ?k (dataStore ?w1) = None"
      using miss by (simp add: emit_def)
    have "fetchData api ?k ?url 0 s ?w1 = fetchData api ?k ?url (0 + n) (cleared n s) ?wn"
      using miss1 bad1 n by (intro fetchData_rounds) simp_all
    moreover have "fetchData api ?k ?url (0 + n) (cleared n s) ?wn
        = (Inl (Exn ''Error'' (''Fetch error: '' @ message e)),
            (cleared n s)\<lparr>error := True\<rparr>,
            ?wn\<lparr>requests := requests ?wn + 1,
              trace := trace ?wn @ [DbOpen, DbGet ?k, Fetch ?url, Render]\<rparr>)"
      using miss fail
      by (intro fetchData_failure) (simp_all add: after_rounds_def emit_def)
    ultimately show "getImmersionKitData api T exact s w
        = (Inl (Exn ''Error'' (''Fetch error: '' @ message e)),
           s\<lparr>error := True\<rparr>,
           w\<lparr>requests := requests w + n + 1, now := now w + 2000 * int n,
             trace := trace w @ [PrefsGet (vocab s)]
               @ concat (replicate n (retry_round ?k ?url))
               @ [DbOpen, DbGet ?k, Fetch ?url, Render]\<rparr>)"
      by (simp add: unfold cleared_def after_rounds_def emit_def)
  }
qed

theorem fetch_failure_not_retried_witness:
  "\<not> lone_surrogate ''neko''
   \<and> \<not> isBlacklisted (prefs fresh_world (vocab idle_state))
   \<and> store_get (search_key ''neko'' False) (dataStore fresh_world) = None
   \<and> fetch_json (blank_then_503 (look_up_url (search_key ''neko'' False)) 2)
       = Inl (Exn ''Error'' ''HTTP error! status: 503'')
   \<and> getImmersionKitData blank_then_503 ''neko'' False idle_state fresh_world
       = (Inl (Exn ''Error'' ''Fetch error: HTTP error! status: 503''),
          idle_state\<lparr>error := True\<rparr>,
          fresh_world\<lparr>requests := 3, now := 5000,
            trace := [PrefsGet ''neko'',
              DbOpen, DbGet ''neko'', Fetch (look_up_url ''neko''), Sleep 2000,
              DbOpen, DbGet ''neko'', Fetch (look_up_url ''neko''), Sleep 2000,
              DbOpen, DbGet ''neko'', Fetch (look_up_url ''neko''), Render]\<rparr>)"
proof -
  let ?url = "look_up_url (search_key ''neko'' False)"
  have n: "(2::nat) < maxRetries" by (simp add: maxRetries_def)
  have bad: "\<forall>i<2. rejected_reason (blank_then_503 ?url (requests fresh_world + i)) \<noteq> None"
    by (simp add: blank_then_503_def rejected_blank fresh_world_def)
  have status: "show_nat 503 = ''503''" by code_simp
  have late: "fetch_json (blank_then_503 u m) = Inl (Exn ''Error'' ''HTTP error! status: 503'')"
    if "2 \<le> m" for u m
    using that by (simp add: blank_then_503_def fetch_json_def ok_def status)
  have fail2: "fetch_json (blank_then_503 ?url 2) = Inl (Exn ''Error'' ''HTTP error! status: 503'')"
    by (rule late) simp
  have fail: "fetch_json (blank_then_503 ?url (requests fresh_world + 2))
      = Inl (Exn ''Error'' ''HTTP error! status: 503'')"
    by (rule late) simp
  have two: "replicate 2 x = [x, x]" for x :: "event list"
    by (simp add: eval_nat_numeral)
  show ?thesis
    using fetch_failure_not_retried
        [where api = blank_then_503 and T = "''neko''" and exact = False and w = fresh_world
           and s = idle_state,
         OF well_formed_neko not_blacklisted_fresh n bad fail]
      well_formed_neko not_blacklisted_fresh miss_fresh [of "search_key ''neko'' False"] fail2
    by (simp add: search_key_def two retry_round_def fresh_world_def idle_state_def)
qed

subsection \<open>The blacklist\<close>

text \<open>A record \<^verbatim>\<open>sentence,2\<close> whose sentence has no comma is read as blacklisted.\<close>

lemma split_on_flag:
  "CHR '','' \<notin> set sentence \<Longrightarrow> split_on CHR '','' (sentence @ '','' @ flag) = sentence # split_on CHR '','' flag"
  by (induction sentence) auto

lemma parseInt10_two: "parseInt10 ''2'' = Some 2"
  by (simp add: parseInt10_def is_ws1_def is_digit_def digit_value_def)

lemma flag_two_blacklisted:
  "CHR '','' \<notin> set sentence \<Longrightarrow> isBlacklisted (Some (sentence @ '',2''))"
  using split_on_flag [of sentence "''2''"]
  by (simp add: isBlacklisted_def parseInt10_two)

subsection \<open>Requests of a lookup that is not short-circuited\<close>

lemma save_requests: "requests (snd (snd (IndexedDBManager_save k d s w))) = requests w"
  by (auto simp: IndexedDBManager_save_def validateApiResponse_eq IndexedDBManager_getAll_def
      emit_def Let_def split: sum.splits option.splits)

lemma fetchData_valid_requests:
  assumes miss: "store_get k (dataStore w) = None"
    and got: "fetch_json (api url (requests w)) = Inr j"
    and valid: "validation_result j = None"
  shows "requests (snd (snd (fetchData api k url attempt s w))) = requests w + 1"
proof -
  have "requests (snd (snd (IndexedDBManager_save k j s' w'))) = requests w'" for s' w'
    by (rule save_requests)
  then show ?thesis
    apply (subst fetchData.simps)
    apply (simp add: IndexedDBManager_open_def IndexedDBManager_get_def emit_def miss
        cache_hit_def do_fetch_def got valid validateApiResponse_eq caught_def
        case_prod_unfold Let_def split: sum.splits)
    done
qed

lemma fetch_good: "fetch_json (always_good url n) = Inr payload_good"
  by (simp add: always_good_def fetch_json_def ok_def)

lemma valid_good: "validation_result payload_good = None"
  by (simp add: validation_result_def payload_good_def)

text \<open>
  C8 (counterexample). Three terms whose record carries the flag 2, for which the call
  does not return quietly. The sentence of the record holds a comma: the second piece
  is not the flag, and a request is issued. The term is not the page's current term:
  the record read is that of \<^verbatim>\<open>state.vocab\<close>, and a request is issued. The term holds
  a lone surrogate: the URL is built before the record is read, and the call is
  rejected with a URIError.
\<close>

theorem blacklist_flag_not_honoured:
  "prefs comma_world ''neko'' = Some ''a,b,2''
   \<and> requests (snd (snd (getImmersionKitData always_good ''neko'' False idle_state comma_world)))
       = requests comma_world + 1
   \<and> prefs other_term_world ''inu'' = Some ''inu da,2''
   \<and> requests (snd (snd (getImmersionKitData always_good ''inu'' False idle_state other_term_world)))
       = requests other_term_world + 1
   \<and> prefs lone_world lone_term = Some ''x,2''
   \<and> fst (getImmersionKitData always_good lone_term False lone_state lone_world)
       = Inl (Exn ''URIError'' ''URI malformed'')"
proof -
  have nb1: "\<not> isBlacklisted (prefs comma_world (vocab idle_state))"
    by (simp add: comma_world_def idle_state_def isBlacklisted_def parseInt10_def
        is_ws1_def is_digit_def)
  have nb2: "\<not> isBlacklisted (prefs other_term_world (vocab idle_state))"
    by (simp add: other_term_world_def idle_state_def isBlacklisted_def)
  have m1: "store_get k (dataStore (emit es comma_world)) = None" for k es
    by (simp add: comma_world_def emit_def miss_fresh)
  have m2: "store_get k (dataStore (emit es other_term_world)) = None" for k es
    by (simp add: other_term_world_def emit_def miss_fresh)
  have r1: "requests (snd (snd (getImmersionKitData always_good ''neko'' False idle_state comma_world)))
      = requests comma_world + 1"
    using fetchData_valid_requests [OF m1 fetch_good valid_good] nb1
    by (simp add: getImmersionKitData_built emit_def)
  have i: "\<not> lone_surrogate ''inu''" by simp
  have r2: "requests (snd (snd (getImmersionKitData always_good ''inu'' False idle_state other_term_world)))
      = requests other_term_world + 1"
    using fetchData_valid_requests [OF m2 fetch_good valid_good] nb2
    by (simp add: getImmersionKitData_built [OF i] emit_def)
  have r3: "fst (getImmersionKitData always_good lone_term False lone_state lone_world)
      = Inl (Exn ''URIError'' ''URI malformed'')"
    using lone_term_lone
    by (simp add: getImmersionKitData_def build_url_throws lone_surrogate_search_key)
  show ?thesis
    using r1 r2 r3
    by (simp add: comma_world_def other_term_world_def lone_world_def)
qed

text \<open>
  C8 (amended). For a term of well-formed text that is the page's current term
  (\<^verbatim>\<open>state.vocab\<close>, as at both call sites) and whose record is \<^verbatim>\<open>sentence,2\<close> with
  a sentence free of commas, and for either search mode, the call reads the preference
  and returns: no request is issued, the store is neither opened
  nor read, nothing is thrown, and the script's state is as before.
\<close>

theorem blacklisted_short_circuit:
  assumes "\<not> lone_surrogate T" and "vocab s = T"
    and "CHR '','' \<notin> set sentence" and "prefs w T = Some (sentence @ '',2'')"
  shows "getImmersionKitData api T exact s w
       = (Inr (), s, w\<lparr>trace := trace w @ [PrefsGet T]\<rparr>)"
  using assms
  by (simp add: getImmersionKitData_built emit_def flag_two_blacklisted)

theorem blacklisted_short_circuit_witness:
  "\<not> lone_surrogate ''neko'' \<and> vocab idle_state = ''neko''
   \<and> CHR '','' \<notin> set ''neko wa''
   \<and> prefs blacklisting_world ''neko'' = Some ''neko wa,2''
   \<and> getImmersionKitData always_blank ''neko'' True idle_state blacklisting_world
       = (Inr (), idle_state, blacklisting_world\<lparr>trace := [PrefsGet ''neko'']\<rparr>)"
proof -
  have v: "vocab idle_state = ''neko''" by (simp add: idle_state_def)
  have c: "CHR '','' \<notin> set ''neko wa''" by simp
  have p: "prefs blacklisting_world ''neko'' = Some (''neko wa'' @ '',2'')"
    by (simp add: blacklisting_world_def)
  have t: "trace blacklisting_world = []"
    by (simp add: blacklisting_world_def fresh_world_def)
  show ?thesis
    using blacklisted_short_circuit
        [where s = idle_state and T = "''neko''" and w = blacklisting_world
           and api = always_blank and exact = True and sentence = "''neko wa''",
         OF well_formed_neko v c p]
      well_formed_neko v c p t
    by simp
qed

section \<open>Properties of findExampleBySentence\<close>

text \<open>
  C10 (counterexample). The URL is built before the \<^verbatim>\<open>try\<close>: for a sentence that
  holds a lone surrogate, \<^verbatim>\<open>encodeURIComponent\<close> throws and the URIError reaches the
  caller.
\<close>

theorem findExampleBySentence_raises:
  "fst (findExampleBySentence always_good lone_term (Some 0) fresh_world)
     = Inl (Exn ''URIError'' ''URI malformed'')"
  using lone_term_lone
  by (simp add: findExampleBySentence_def build_url_throws lone_surrogate_open
      lone_surrogate_close)

text \<open>
  C10 (amended). For a sentence of well-formed text (no lone surrogate),
  \<^verbatim>\<open>findExampleBySentence\<close> issues one request and returns a value, whatever the
  remote side answers: nothing reaches the caller as an error. When the fetch fails
  (network failure, status that is not 2xx, body that does not parse) it returns
  \<^verbatim>\<open>null\<close>, as it does when the response has fewer than \<open>occurrenceIndex + 1\<close>
  examples with the sentence, and when reading the response throws; the surroundings are
  the same in all these cases.
\<close>

theorem findExampleBySentence_failure_is_null:
  assumes wf: "\<not> lone_surrogate sentence"
  shows "(\<exists>v. fst (findExampleBySentence api sentence idx w) = Inr v)
   \<and> (fetch_json (api (look_up_url (open_bracket @ sentence @ close_bracket)) (requests w)) = Inl e
      \<longrightarrow> fst (findExampleBySentence api sentence idx w) = Inr JNull)
   \<and> (fetch_json (api (look_up_url (open_bracket @ sentence @ close_bracket)) (requests w)) = Inr j
        \<and> \<not> nullish j \<and> truthy (field j ''data'') \<and> iterate (field j ''data'') = Inr ds
        \<and> matching_loop sentence ds [] = Inr ms \<and> idx = Some i \<and> int (length ms) < i + 1
      \<longrightarrow> fst (findExampleBySentence api sentence idx w) = Inr JNull)
   \<and> (fetch_json (api (look_up_url (open_bracket @ sentence @ close_bracket)) (requests w)) = Inr j
        \<and> find_match sentence idx j = Inl e'
      \<longrightarrow> fst (findExampleBySentence api sentence idx w) = Inr JNull)
   \<and> snd (findExampleBySentence api sentence idx w)
       = w\<lparr>requests := requests w + 1,
           trace := trace w @ [Fetch (look_up_url (open_bracket @ sentence @ close_bracket))]\<rparr>"
proof -
  have url: "build_url (open_bracket @ sentence @ close_bracket)
      = Inr (look_up_url (open_bracket @ sentence @ close_bracket))"
    using wf by (intro build_url_ok) (simp add: lone_surrogate_open lone_surrogate_close)
  show ?thesis
    by (auto simp: findExampleBySentence_def url do_fetch_def emit_def find_match_def Let_def
        split: sum.splits option.splits)
qed

theorem findExampleBySentence_failure_is_null_witness:
  "\<not> lone_surrogate ''x''
   \<and> fetch_json (always_503 (look_up_url (open_bracket @ ''x'' @ close_bracket)) 0)
     = Inl (Exn ''Error'' ''HTTP error! status: 503'')
   \<and> fst (findExampleBySentence always_503 ''x'' (Some 0) fresh_world) = Inr JNull
   \<and> matching_loop ''x'' [JObj [(''category_count'', JObj [(''a'', JNum 1)]),
          (''examples'', JArr [JObj [(''sentence'', JStr ''x'')]])]] []
       = Inr [JObj [(''sentence'', JStr ''x'')]]
   \<and> fst (findExampleBySentence always_good ''x'' (Some 1) fresh_world) = Inr JNull"
proof -
  let ?url = "look_up_url (open_bracket @ ''x'' @ close_bracket)"
  let ?first = "JObj [(''category_count'', JObj [(''a'', JNum 1)]),
          (''examples'', JArr [JObj [(''sentence'', JStr ''x'')]])]"
  have wf: "\<not> lone_surrogate ''x''" by simp
  have status: "show_nat 503 = ''503''" by code_simp
  have fail: "fetch_json (always_503 ?url (requests fresh_world))
      = Inl (Exn ''Error'' ''HTTP error! status: 503'')"
    by (simp add: always_503_def fetch_json_def ok_def status)
  have good: "fetch_json (always_good ?url (requests fresh_world)) = Inr payload_good"
    by (rule fetch_good)
  have shape: "\<not> nullish payload_good" "truthy (field payload_good ''data'')"
    "iterate (field payload_good ''data'') = Inr [?first]"
    by (simp_all add: payload_good_def iterate_def)
  have ms: "matching_loop ''x'' [?first] [] = Inr [JObj [(''sentence'', JStr ''x'')]]"
    by simp
  have few: "int (length [JObj [(''sentence'', JStr ''x'')]]) < 1 + 1"
    by simp
  have a: "fst (findExampleBySentence always_503 ''x'' (Some 0) fresh_world) = Inr JNull"
    using findExampleBySentence_failure_is_null
      [where api = always_503 and sentence = "''x''" and w = fresh_world and idx = "Some 0"
         and e = "Exn ''Error'' ''HTTP error! status: 503''", OF wf]
      fail by blast
  have b: "fst (findExampleBySentence always_good ''x'' (Some 1) fresh_world) = Inr JNull"
    using findExampleBySentence_failure_is_null
      [where api = always_good and sentence = "''x''" and w = fresh_world and idx = "Some 1"
         and j = payload_good and ds = "[?first]" and ms = "[JObj [(''sentence'', JStr ''x'')]]"
         and i = 1, OF wf]
      good shape ms few by blast
  from a b ms fail wf show ?thesis
    by (simp add: always_503_def)
qed

end
